theory Spec2Isabelle
  imports Complex_Main
begin

section \<open>Tracks and the Queue (structures/Track, structures/Queue)\<close>

text \<open>
  A Track is an object with an encoded payload and display metadata. Only the fields
  the orchestration core reads are kept; the requester is the identity stamped by
  \<open>Queue.add\<close> (an object in the source, named here by its id). The queue operations
  are modelled on Track instances; the conversion of raw data by \<open>Track.from\<close> is
  outside the model.
\<close>

record track =
  encoded :: "string option"
  ident :: string
  title :: string
  author :: string
  duration :: int
  requester :: "string option"

datatype loop_mode = OFF | TRACK | QUEUE

datatype js_error = Error string

text \<open>
  A JavaScript number handed in as an index: a finite number (an exact rational here), an
  infinity, or \<open>NaN\<close>. \<open>NaN\<close> also stands for an argument left \<open>undefined\<close>, which
  compares, subtracts, truncates and indexes as \<open>NaN\<close> does.
\<close>

datatype jsnum = Fin rat | PosInf | NegInf | NaN

text \<open>\<open>x < k\<close>, \<open>x >= k\<close> and \<open>x - k\<close> for a number \<open>x\<close> and an integer \<open>k\<close> (a length or 0).\<close>

fun js_lt :: "jsnum \<Rightarrow> int \<Rightarrow> bool" where
  "js_lt (Fin r) k = (r < of_int k)"
| "js_lt PosInf k = False"
| "js_lt NegInf k = True"
| "js_lt NaN k = False"

fun js_ge :: "jsnum \<Rightarrow> int \<Rightarrow> bool" where
  "js_ge (Fin r) k = (of_int k \<le> r)"
| "js_ge PosInf k = True"
| "js_ge NegInf k = False"
| "js_ge NaN k = False"

fun js_minus :: "jsnum \<Rightarrow> int \<Rightarrow> jsnum" where
  "js_minus (Fin r) k = Fin (r - of_int k)"
| "js_minus PosInf k = PosInf"
| "js_minus NegInf k = NegInf"
| "js_minus NaN k = NaN"

text \<open>Events a Queue emits (\<open>QUEUE_ADD\<close>, \<open>QUEUE_REMOVE\<close>, \<open>QUEUE_CLEAR\<close>).\<close>

datatype queue_event =
    QueueAdd "track list"
  | QueueRemove "track option" jsnum
  | QueueClear

text \<open>
  The autoplay provider is a caller-supplied function from the track it is given to
  either a thrown error or the list of recommended tracks.
\<close>

type_synonym provider = "track \<Rightarrow> js_error + track list"

record queue =
  tracks :: "track list"
  priorityTracks :: "track list"
  current :: "track option"
  previous :: "track option"
  loop :: loop_mode
  autoplay :: bool
  autoplayProvider :: "provider option"
  history :: "track list"
  maxHistorySize :: int
  emitted :: "queue_event list"

definition Queue_new :: queue where
  "Queue_new = \<lparr> tracks = [], priorityTracks = [], current = None, previous = None,
     loop = OFF, autoplay = False, autoplayProvider = None, history = [],
     maxHistorySize = 50, emitted = [] \<rparr>"

definition Queue_size :: "queue \<Rightarrow> int" where
  "Queue_size q = int (length (tracks q)) + int (length (priorityTracks q))"

text \<open>\<open>Array.prototype.splice(start, 0, x)\<close>: the start index is clamped as JavaScript does.\<close>

definition splice_start :: "int \<Rightarrow> 'a list \<Rightarrow> nat" where
  "splice_start start xs =
     (if start < 0 then nat (max (int (length xs) + start) 0)
      else nat (min start (int (length xs))))"

definition splice_insert :: "int \<Rightarrow> 'a \<Rightarrow> 'a list \<Rightarrow> 'a list" where
  "splice_insert start x xs =
     (let k = splice_start start xs in take k xs @ [x] @ drop k xs)"

text \<open>\<open>splice(i, 1)\<close> for an index already known to be in range.\<close>

definition splice_remove :: "nat \<Rightarrow> 'a list \<Rightarrow> 'a list" where
  "splice_remove i xs = take i xs @ drop (Suc i) xs"

text \<open>
  Where \<open>splice(start, ...)\<close> works for a start that is any number: \<open>NaN\<close> becomes 0, a
  finite number is truncated towards zero and clamped as above, the infinities clamp to
  the ends.
\<close>

definition js_trunc :: "rat \<Rightarrow> int" where
  "js_trunc r = (if 0 \<le> r then \<lfloor>r\<rfloor> else \<lceil>r\<rceil>)"

fun js_splice_start :: "jsnum \<Rightarrow> 'a list \<Rightarrow> nat" where
  "js_splice_start (Fin r) xs = splice_start (js_trunc r) xs"
| "js_splice_start PosInf xs = length xs"
| "js_splice_start NegInf xs = 0"
| "js_splice_start NaN xs = 0"

text \<open>
  Arrays whose entries may be \<open>undefined\<close> (\<open>None\<close>). A number names an element only when
  it is a non-negative integer; any other number (a fraction, \<open>NaN\<close>) names an ordinary
  property: reading it yields \<open>undefined\<close> and writing it leaves the elements alone.
  Writing past the end extends the array.
\<close>

fun js_element :: "jsnum \<Rightarrow> nat option" where
  "js_element (Fin r) = (if 0 \<le> r \<and> r = of_int \<lfloor>r\<rfloor> then Some (nat \<lfloor>r\<rfloor>) else None)"
| "js_element PosInf = None"
| "js_element NegInf = None"
| "js_element NaN = None"

definition js_read :: "'a option list \<Rightarrow> jsnum \<Rightarrow> 'a option" where
  "js_read xs x =
     (case js_element x of
        None \<Rightarrow> None
      | Some i \<Rightarrow> (if i < length xs then xs ! i else None))"

definition js_write :: "'a option list \<Rightarrow> jsnum \<Rightarrow> 'a option \<Rightarrow> 'a option list" where
  "js_write xs x v =
     (case js_element x of
        None \<Rightarrow> xs
      | Some i \<Rightarrow> (if i < length xs then xs[i := v]
                   else xs @ replicate (i - length xs) None @ [v]))"

record add_options =
  opt_priority :: bool
  opt_position :: "int option"
  opt_requester :: "string option"

definition default_add_options :: add_options where
  "default_add_options = \<lparr> opt_priority = False, opt_position = None, opt_requester = None \<rparr>"

text \<open>One iteration of the loop of \<open>Queue.add\<close>: stamp the requester, then place the track.\<close>

definition add_one :: "add_options \<Rightarrow> track \<Rightarrow> queue \<times> track list \<Rightarrow> queue \<times> track list" where
  "add_one opts t acc =
     (let q = fst acc;
          trackInstance = (case opt_requester opts of
                             Some r \<Rightarrow> t\<lparr>requester := Some r\<rparr>
                           | None \<Rightarrow> t);
          q' = (if opt_priority opts
                  then q\<lparr>priorityTracks := priorityTracks q @ [trackInstance]\<rparr>
                else (case opt_position opts of
                        Some pos \<Rightarrow> q\<lparr>tracks := splice_insert pos trackInstance (tracks q)\<rparr>
                      | None \<Rightarrow> q\<lparr>tracks := tracks q @ [trackInstance]\<rparr>))
      in (q', snd acc @ [trackInstance]))"

definition Queue_add :: "track list \<Rightarrow> add_options \<Rightarrow> queue \<Rightarrow> track list \<times> queue" where
  "Queue_add trackArray opts q =
     (let r = fold (add_one opts) trackArray (q, []);
          q' = fst r; addedTracks = snd r
      in (addedTracks, q'\<lparr>emitted := emitted q' @ [QueueAdd addedTracks]\<rparr>))"

definition Queue_remove :: "jsnum \<Rightarrow> queue \<Rightarrow> track option \<times> queue" where
  "Queue_remove index q =
     (if js_lt index 0 then (None, q)
      else if js_lt index (int (length (priorityTracks q))) then
        (let k = js_splice_start index (priorityTracks q);
             removed = (case drop k (priorityTracks q) of [] \<Rightarrow> None | x # _ \<Rightarrow> Some x)
         in (removed,
             q\<lparr>priorityTracks := splice_remove k (priorityTracks q),
               emitted := emitted q @ [QueueRemove removed index]\<rparr>))
      else
        (let mainIndex = js_minus index (int (length (priorityTracks q)))
         in if js_lt mainIndex (int (length (tracks q))) then
              (let k = js_splice_start mainIndex (tracks q);
                   removed = (case drop k (tracks q) of [] \<Rightarrow> None | x # _ \<Rightarrow> Some x)
               in (removed,
                   q\<lparr>tracks := splice_remove k (tracks q),
                     emitted := emitted q @ [QueueRemove removed index]\<rparr>))
            else (None, q)))"

definition Queue_clear :: "bool \<Rightarrow> queue \<Rightarrow> int \<times> queue" where
  "Queue_clear includePriority q =
     (let count = (if includePriority then Queue_size q else int (length (tracks q)));
          q1 = q\<lparr>tracks := []\<rparr>;
          q2 = (if includePriority then q1\<lparr>priorityTracks := []\<rparr> else q1)
      in (count, q2\<lparr>emitted := emitted q2 @ [QueueClear]\<rparr>))"

text \<open>
  \<open>move\<close> and \<open>swap\<close> work on the concatenated view and re-split it; the priority lane
  is assigned first and the main lane is sliced from the new priority length. Their
  guard compares with \<open><\<close> and \<open>>=\<close> only, so a \<open>NaN\<close> argument passes it, and what they
  then store in the lanes may be \<open>undefined\<close>: the result gives the success flag and the
  two lanes as arrays of possibly undefined entries (priority lane first). Nothing else
  of the queue is touched and no event is emitted.
\<close>

type_synonym slots = "track option list"

definition Queue_move :: "jsnum \<Rightarrow> jsnum \<Rightarrow> queue \<Rightarrow> bool \<times> slots \<times> slots" where
  "Queue_move from to q =
     (if js_lt from 0 \<or> js_ge from (Queue_size q) \<or> js_lt to 0 \<or> js_ge to (Queue_size q)
        then (False, map Some (priorityTracks q), map Some (tracks q))
      else
        (let combined = map Some (priorityTracks q @ tracks q);
             k = js_splice_start from combined;
             removed = take 1 (drop k combined);
             t = (case removed of [] \<Rightarrow> None | x # _ \<Rightarrow> x);
             combined1 = take k combined @ drop (k + length removed) combined;
             j = js_splice_start to combined1;
             combined2 = take j combined1 @ [t] @ drop j combined1;
             priorityTracks' = take (length (priorityTracks q)) combined2;
             tracks' = drop (length priorityTracks') combined2
         in (True, priorityTracks', tracks')))"

definition Queue_swap :: "jsnum \<Rightarrow> jsnum \<Rightarrow> queue \<Rightarrow> bool \<times> slots \<times> slots" where
  "Queue_swap index1 index2 q =
     (if js_lt index1 0 \<or> js_ge index1 (Queue_size q)
         \<or> js_lt index2 0 \<or> js_ge index2 (Queue_size q)
        then (False, map Some (priorityTracks q), map Some (tracks q))
      else
        (let combined = map Some (priorityTracks q @ tracks q);
             b = js_read combined index2;
             a = js_read combined index1;
             combined1 = js_write combined index1 b;
             combined2 = js_write combined1 index2 a;
             priorityTracks' = take (length (priorityTracks q)) combined2;
             tracks' = drop (length priorityTracks') combined2
         in (True, priorityTracks', tracks')))"

text \<open>
  The valid index range \<open>[0, size)\<close> of the concatenated view, for a number: no infinity
  and no \<open>NaN\<close> lies in it.
\<close>

fun in_range :: "jsnum \<Rightarrow> int \<Rightarrow> bool" where
  "in_range (Fin r) n = (0 \<le> r \<and> r < of_int n)"
| "in_range PosInf n = False"
| "in_range NegInf n = False"
| "in_range NaN n = False"

text \<open>\<open>_addToHistory\<close>: push, then drop the oldest entry when over the bound.\<close>

definition addToHistory :: "track \<Rightarrow> queue \<Rightarrow> queue" where
  "addToHistory t q =
     (let h = history q @ [t]
      in q\<lparr>history := (if int (length h) > maxHistorySize q then tl h else h)\<rparr>)"

definition Queue_next :: "queue \<Rightarrow> track option \<times> queue" where
  "Queue_next q =
     (let q1 = (case current q of
                  Some c \<Rightarrow> addToHistory c (q\<lparr>previous := Some c\<rparr>)
                | None \<Rightarrow> q)
      in if loop q1 = TRACK \<and> current q1 \<noteq> None then (current q1, q1)
         else (case priorityTracks q1 of
                 p # ps \<Rightarrow> (Some p, q1\<lparr>current := Some p, priorityTracks := ps\<rparr>)
               | [] \<Rightarrow>
                 (case tracks q1 of
                    t # ts \<Rightarrow>
                      (let q2 = q1\<lparr>current := Some t, tracks := ts\<rparr>
                       in (Some t,
                           (if loop q2 = QUEUE then
                              (case previous q2 of
                                 Some pr \<Rightarrow> q2\<lparr>tracks := tracks q2 @ [pr]\<rparr>
                               | None \<Rightarrow> q2)
                            else q2)))
                  | [] \<Rightarrow>
                      (if loop q1 = QUEUE \<and> previous q1 \<noteq> None
                         then (previous q1, q1\<lparr>current := previous q1\<rparr>)
                       else (None, q1\<lparr>current := None\<rparr>)))))"

definition Queue_jump :: "int \<Rightarrow> queue \<Rightarrow> track option \<times> queue" where
  "Queue_jump position q =
     (if position < 0 \<or> position \<ge> Queue_size q then (None, q)
      else
        (let q1 = (case current q of Some c \<Rightarrow> addToHistory c q | None \<Rightarrow> q);
             combined = priorityTracks q1 @ tracks q1;
             skipped = take (nat position) combined;
             rest = drop (nat position) combined;
             q2 = fold addToHistory skipped q1;
             target = (case rest of [] \<Rightarrow> None | x # _ \<Rightarrow> Some x);
             remaining = tl rest;
             priorityCount = max 0 (int (length (priorityTracks q2)) - position - 1);
             q3 = q2\<lparr>current := target\<rparr>;
             q4 = q3\<lparr>priorityTracks := take (nat priorityCount) remaining\<rparr>;
             q5 = q4\<lparr>tracks := drop (nat priorityCount) remaining\<rparr>
         in (target, q5)))"

definition Queue_back :: "queue \<Rightarrow> track option \<times> queue" where
  "Queue_back q =
     (if history q = [] then (None, q)
      else
        (let q1 = (case current q of
                     Some c \<Rightarrow> q\<lparr>priorityTracks := c # priorityTracks q\<rparr>
                   | None \<Rightarrow> q);
             popped = last (history q1);
             h = butlast (history q1);
             q2 = q1\<lparr>current := Some popped, history := h\<rparr>;
             q3 = q2\<lparr>previous := (if h = [] then None else Some (last h))\<rparr>
         in (current q3, q3)))"

text \<open>\<open>getAutoplayTracks\<close>: the provider is called with the queue's current track.\<close>

definition Queue_getAutoplayTracks :: "queue \<Rightarrow> (js_error + track list) \<times> track list" where
  "Queue_getAutoplayTracks q =
     (case autoplayProvider q of
        None \<Rightarrow> (Inr [], [])
      | Some f \<Rightarrow>
          (case current q of
             None \<Rightarrow> (Inr [], [])
           | Some c \<Rightarrow> (f c, [c])))"

text \<open>\<open>at(index)\<close>: read the concatenated view; out of range yields nothing.\<close>

definition Queue_at :: "int \<Rightarrow> queue \<Rightarrow> track option" where
  "Queue_at index q =
     (if index < 0 then None
      else if index < int (length (priorityTracks q)) then Some (priorityTracks q ! nat index)
      else (let mainIndex = index - int (length (priorityTracks q))
            in if mainIndex < int (length (tracks q)) then Some (tracks q ! nat mainIndex)
               else None))"

text \<open>Repeated calls of \<open>next()\<close> with no other mutation: the results in call order.\<close>

fun Queue_next_n :: "nat \<Rightarrow> queue \<Rightarrow> track option list \<times> queue" where
  "Queue_next_n 0 q = ([], q)"
| "Queue_next_n (Suc n) q =
     (let r = Queue_next q; rs = Queue_next_n n (snd r) in (fst r # fst rs, snd rs))"

section \<open>Node (structures/Node)\<close>

datatype node_state = CONNECTING | CONNECTED | RECONNECTING | DISCONNECTED | DESTROYED

text \<open>
  The stats snapshot: the numbers the penalty reads. Numbers are JavaScript doubles in
  the source; the model computes with exact rationals.
\<close>

record frame_stats =
  fs_deficit :: rat
  fs_nulled :: rat

record node_stats =
  st_players :: rat
  st_playingPlayers :: rat
  st_cpu_systemLoad :: "rat option"
  st_frameStats :: "frame_stats option"

datatype node_event =
    NODE_DISCONNECT int string
  | NODE_RECONNECT nat

record node =
  n_name :: string
  n_retryAmount :: int
  n_retryDelay :: rat
  n_priority :: int
  n_regions :: "string list"
  n_state :: node_state
  n_sessionId :: "string option"
  n_stats :: "node_stats option"
  n_wsOpen :: bool
  n_reconnectAttempts :: nat
  n_reconnectTimeout :: "rat option"
  n_connectedAt :: int
  n_events :: "node_event list"

text \<open>The constructor with the defaults of \<open>Defaults.NODE\<close>.\<close>

definition Node_new :: "string \<Rightarrow> node" where
  "Node_new nm = \<lparr> n_name = nm, n_retryAmount = 5, n_retryDelay = 5000, n_priority = 1,
     n_regions = [], n_state = DISCONNECTED, n_sessionId = None, n_stats = None,
     n_wsOpen = False, n_reconnectAttempts = 0, n_reconnectTimeout = None,
     n_connectedAt = 0, n_events = [] \<rparr>"

definition Node_connected :: "node \<Rightarrow> bool" where
  "Node_connected n = (n_state n = CONNECTED)"

definition Node_penalty :: "node \<Rightarrow> rat" where
  "Node_penalty n =
     (case n_stats n of
        None \<Rightarrow> 0
      | Some st \<Rightarrow>
          (let penalty0 = 0 + st_players st * 1;
               penalty1 = penalty0 + st_playingPlayers st * (3 / 2);
               penalty2 = (case st_cpu_systemLoad st of
                             Some l \<Rightarrow> penalty1 + l ^ 2 * 100
                           | None \<Rightarrow> penalty1);
               penalty3 = (case st_frameStats st of
                             Some f \<Rightarrow> penalty2 + fs_deficit f * 3 + fs_nulled f * 2
                           | None \<Rightarrow> penalty2)
           in penalty3))"

definition Node_disconnect :: "node \<Rightarrow> node" where
  "Node_disconnect n =
     (let n1 = (if n_reconnectTimeout n \<noteq> None then n\<lparr>n_reconnectTimeout := None\<rparr> else n);
          n2 = (if n_wsOpen n1 then n1\<lparr>n_wsOpen := False\<rparr> else n1)
      in n2\<lparr>n_state := DISCONNECTED\<rparr>)"

definition Node_onOpen :: "int \<Rightarrow> node \<Rightarrow> node" where
  "Node_onOpen now n = n\<lparr>n_reconnectAttempts := 0, n_connectedAt := now\<rparr>"

text \<open>
  \<open>_scheduleReconnect\<close>: \<open>rnd\<close> is the value \<open>Math.random()\<close> returns, in \<open>[0, 1)\<close>;
  the armed timer is recorded by its duration \<open>delay + jitter\<close>.
\<close>

definition Node_scheduleReconnect :: "rat \<Rightarrow> node \<Rightarrow> node" where
  "Node_scheduleReconnect rnd n =
     (let n1 = n\<lparr>n_state := RECONNECTING\<rparr>;
          n2 = n1\<lparr>n_reconnectAttempts := Suc (n_reconnectAttempts n1)\<rparr>;
          delay = n_retryDelay n2 * (3 / 2) ^ (n_reconnectAttempts n2 - 1);
          jitter = rnd * 1000;
          n3 = n2\<lparr>n_events := n_events n2 @ [NODE_RECONNECT (n_reconnectAttempts n2)]\<rparr>
      in n3\<lparr>n_reconnectTimeout := Some (delay + jitter)\<rparr>)"

definition Node_onClose :: "int \<Rightarrow> string \<Rightarrow> rat \<Rightarrow> node \<Rightarrow> node" where
  "Node_onClose code reason rnd n =
     (let n1 = n\<lparr>n_events := n_events n @ [NODE_DISCONNECT code reason]\<rparr>
      in if n_state n1 \<noteq> DESTROYED \<and> int (n_reconnectAttempts n1) < n_retryAmount n1
           then Node_scheduleReconnect rnd n1
         else n1)"

section \<open>NodeManager (managers/NodeManager)\<close>

text \<open>
  The manager is a Map from names to Nodes; \<open>values()\<close> lists the Nodes in insertion
  order, which is the list the model works on.
\<close>

definition NodeManager_getConnected :: "node list \<Rightarrow> node list" where
  "NodeManager_getConnected pool = filter Node_connected pool"

text \<open>The comparator handed to \<open>Array.prototype.sort\<close>.\<close>

definition node_compare :: "node \<Rightarrow> node \<Rightarrow> rat" where
  "node_compare a b =
     (if n_priority a \<noteq> n_priority b then of_int (n_priority a - n_priority b)
      else Node_penalty a - Node_penalty b)"

text \<open>
  \<open>Array.prototype.sort\<close> with a comparator is a stable sort: an element goes before
  the elements it does not compare greater than and that followed it in the input.
\<close>

fun insert_by :: "('a \<Rightarrow> 'a \<Rightarrow> rat) \<Rightarrow> 'a \<Rightarrow> 'a list \<Rightarrow> 'a list" where
  "insert_by cmp x [] = [x]"
| "insert_by cmp x (y # ys) =
     (if cmp x y \<le> 0 then x # y # ys else y # insert_by cmp x ys)"

definition sort_by :: "('a \<Rightarrow> 'a \<Rightarrow> rat) \<Rightarrow> 'a list \<Rightarrow> 'a list" where
  "sort_by cmp xs = foldr (insert_by cmp) xs []"

text \<open>JavaScript truthiness of a string that may be null or undefined.\<close>

definition truthy :: "string option \<Rightarrow> bool" where
  "truthy s = (case s of None \<Rightarrow> False | Some x \<Rightarrow> x \<noteq> [])"

definition NodeManager_getBest :: "string option \<Rightarrow> node list \<Rightarrow> node option" where
  "NodeManager_getBest region pool =
     (let connected = NodeManager_getConnected pool
      in if length connected = 0 then None
         else
           (let candidates =
                  (case region of
                     None \<Rightarrow> connected
                   | Some r \<Rightarrow>
                       (if r \<noteq> [] then
                          (let regionNodes =
                                 filter (\<lambda>n. length (n_regions n) = 0 \<or> r \<in> set (n_regions n))
                                   connected
                           in if length regionNodes > 0 then regionNodes else connected)
                        else connected));
                sorted = sort_by node_compare candidates
            in (case sorted of [] \<Rightarrow> None | best # _ \<Rightarrow> Some best)))"

text \<open>
  The candidate set in the words of the specification: the connected Nodes, narrowed
  to those with no region restriction or listing the region when a region is given and
  at least one connected Node qualifies.
\<close>

definition region_ok :: "string \<Rightarrow> node \<Rightarrow> bool" where
  "region_ok r n = (n_regions n = [] \<or> r \<in> set (n_regions n))"

definition candidate_set :: "string option \<Rightarrow> node list \<Rightarrow> node set" where
  "candidate_set region pool =
     (if truthy region
         \<and> filter (\<lambda>n. Node_connected n \<and> region_ok (the region) n) pool \<noteq> []
        then set (filter (\<lambda>n. Node_connected n \<and> region_ok (the region) n) pool)
      else set (filter Node_connected pool))"

text \<open>The order \<open>(priority ascending, then penalty ascending)\<close>.\<close>

definition node_le :: "node \<Rightarrow> node \<Rightarrow> bool" where
  "node_le a b = (n_priority a < n_priority b
                  \<or> (n_priority a = n_priority b \<and> Node_penalty a \<le> Node_penalty b))"

section \<open>Connection (structures/Connection)\<close>

datatype conn_event =
    VoiceUpdate "string option" bool bool
  | Disconnect
  | Move "string option" "string option"
  | Ready "string option" "string option" "string option" "string option"
  | PendingResolved
  | PendingRejected

record connection =
  c_channelId :: "string option"
  c_sessionId :: "string option"
  c_token :: "string option"
  c_endpoint :: "string option"
  c_region :: "string option"
  c_connected :: bool
  c_selfDeaf :: bool
  c_selfMute :: bool
  c_connectTimeout :: "int option"
  c_pendingConnection :: bool
  c_events :: "conn_event list"

definition Connection_new :: connection where
  "Connection_new = \<lparr> c_channelId = None, c_sessionId = None, c_token = None,
     c_endpoint = None, c_region = None, c_connected = False, c_selfDeaf = True,
     c_selfMute = False, c_connectTimeout = None, c_pendingConnection = False,
     c_events = [] \<rparr>"

definition Connection_emit :: "conn_event \<Rightarrow> connection \<Rightarrow> connection" where
  "Connection_emit e c = c\<lparr>c_events := c_events c @ [e]\<rparr>"

definition Connection_sendVoiceUpdate :: "connection \<Rightarrow> connection" where
  "Connection_sendVoiceUpdate c =
     Connection_emit (VoiceUpdate (c_channelId c) (c_selfDeaf c) (c_selfMute c)) c"

definition Connection_clearTimeout :: "connection \<Rightarrow> connection" where
  "Connection_clearTimeout c =
     (if c_connectTimeout c \<noteq> None then c\<lparr>c_connectTimeout := None\<rparr> else c)"

text \<open>
  \<open>connect\<close> up to its await: the pending waiter is created, the timer armed and the
  outward voice-state request emitted.
\<close>

definition Connection_connect :: "string option \<Rightarrow> bool \<Rightarrow> bool \<Rightarrow> int \<Rightarrow> connection \<Rightarrow> connection" where
  "Connection_connect channelId selfDeaf selfMute timeout c =
     (let c1 = c\<lparr>c_channelId := channelId, c_selfDeaf := selfDeaf, c_selfMute := selfMute\<rparr>;
          c2 = c1\<lparr>c_pendingConnection := True\<rparr>;
          c3 = c2\<lparr>c_connectTimeout := Some timeout\<rparr>
      in Connection_sendVoiceUpdate c3)"

text \<open>The callback of the connect timer.\<close>

definition Connection_timeoutFires :: "connection \<Rightarrow> connection" where
  "Connection_timeoutFires c =
     (if c_pendingConnection c
        then (Connection_emit PendingRejected c)\<lparr>c_pendingConnection := False\<rparr>
      else c)"

definition Connection_disconnect :: "connection \<Rightarrow> connection" where
  "Connection_disconnect c =
     (let c1 = c\<lparr>c_channelId := None, c_sessionId := None, c_token := None,
                 c_endpoint := None, c_connected := False\<rparr>;
          c2 = Connection_clearTimeout c1
      in Connection_sendVoiceUpdate c2)"

definition Connection_checkReady :: "connection \<Rightarrow> connection" where
  "Connection_checkReady c =
     (if truthy (c_sessionId c) \<and> truthy (c_token c) \<and> truthy (c_endpoint c) then
        (let c1 = c\<lparr>c_connected := True\<rparr>;
             c2 = Connection_clearTimeout c1;
             c3 = (if c_pendingConnection c2
                     then (Connection_emit PendingResolved c2)\<lparr>c_pendingConnection := False\<rparr>
                   else c2)
         in Connection_emit (Ready (c_sessionId c3) (c_token c3) (c_endpoint c3) (c_region c3)) c3)
      else c)"

record voice_state =
  vs_channelId :: "string option"
  vs_sessionId :: "string option"

definition Connection_handleVoiceStateUpdate :: "voice_state \<Rightarrow> connection \<Rightarrow> connection" where
  "Connection_handleVoiceStateUpdate st c =
     (if \<not> truthy (vs_channelId st) \<and> truthy (c_channelId c) then
        Connection_emit Disconnect (c\<lparr>c_channelId := None, c_connected := False\<rparr>)
      else
        (let c1 = (if truthy (vs_channelId st) \<and> truthy (c_channelId c)
                      \<and> vs_channelId st \<noteq> c_channelId c
                     then (let oldChannel = c_channelId c
                           in Connection_emit (Move oldChannel (vs_channelId st))
                                (c\<lparr>c_channelId := vs_channelId st\<rparr>))
                   else c);
             c2 = c1\<lparr>c_sessionId := vs_sessionId st\<rparr>;
             c3 = c2\<lparr>c_channelId := vs_channelId st\<rparr>
         in Connection_checkReady c3))"

record voice_server =
  sv_token :: "string option"
  sv_endpoint :: "string option"

text \<open>
  The region is what \<open>/^([a-z-]+)\d*\./\<close> captures: a non-empty leading run of lower-case
  letters and dashes, then digits, then a dot. Neither quantifier can match less and
  still reach the dot, so the greedy match is the only one.
\<close>

definition is_label_char :: "char \<Rightarrow> bool" where
  "is_label_char ch = ((97 \<le> (of_char ch :: nat) \<and> (of_char ch :: nat) \<le> 122) \<or> ch = CHR ''-'')"

definition is_digit :: "char \<Rightarrow> bool" where
  "is_digit ch = (48 \<le> (of_char ch :: nat) \<and> (of_char ch :: nat) \<le> 57)"

definition extract_region :: "string \<Rightarrow> string option" where
  "extract_region e =
     (let label = takeWhile is_label_char e;
          rest = dropWhile is_digit (dropWhile is_label_char e)
      in (case rest of
            [] \<Rightarrow> None
          | ch # _ \<Rightarrow> (if label \<noteq> [] \<and> ch = CHR ''.'' then Some label else None)))"

definition Connection_handleVoiceServerUpdate :: "voice_server \<Rightarrow> connection \<Rightarrow> connection" where
  "Connection_handleVoiceServerUpdate server c =
     (let c1 = c\<lparr>c_token := sv_token server\<rparr>;
          c2 = c1\<lparr>c_endpoint := sv_endpoint server\<rparr>;
          c3 = (if truthy (c_endpoint c2)
                  then c2\<lparr>c_region := extract_region (the (c_endpoint c2))\<rparr>
                else c2)
      in Connection_checkReady c3)"

text \<open>
  JavaScript values, for the objects handed between Connection and Player: reading a
  property an object does not have yields \<open>undefined\<close>.
\<close>

datatype jsval = JUndefined | JNull | JString string | JObject "(string \<times> jsval) list"

definition js_of :: "string option \<Rightarrow> jsval" where
  "js_of s = (case s of None \<Rightarrow> JNull | Some x \<Rightarrow> JString x)"

fun js_get :: "jsval \<Rightarrow> string \<Rightarrow> jsval" where
  "js_get (JObject props) k = (case map_of props k of Some v \<Rightarrow> v | None \<Rightarrow> JUndefined)"
| "js_get _ k = JUndefined"

definition Connection_getVoicePayload :: "connection \<Rightarrow> jsval" where
  "Connection_getVoicePayload c =
     JObject [(''sessionId'', js_of (c_sessionId c)),
              (''event'', JObject [(''token'', js_of (c_token c)),
                                   (''endpoint'', js_of (c_endpoint c))])]"

text \<open>The payload of the \<open>ready\<close> event, as the Player's listener receives it.\<close>

definition Connection_readyPayload :: "connection \<Rightarrow> jsval" where
  "Connection_readyPayload c =
     JObject [(''sessionId'', js_of (c_sessionId c)), (''token'', js_of (c_token c)),
              (''endpoint'', js_of (c_endpoint c)), (''region'', js_of (c_region c))]"

text \<open>A sequence of updates from the voice platform, handled in arrival order.\<close>

datatype voice_update = StateUpdate voice_state | ServerUpdate voice_server

fun Connection_handle :: "voice_update \<Rightarrow> connection \<Rightarrow> connection" where
  "Connection_handle (StateUpdate st) c = Connection_handleVoiceStateUpdate st c"
| "Connection_handle (ServerUpdate sv) c = Connection_handleVoiceServerUpdate sv c"

definition Connection_handle_all :: "voice_update list \<Rightarrow> connection \<Rightarrow> connection" where
  "Connection_handle_all us c = fold Connection_handle us c"

definition all_present :: "connection \<Rightarrow> bool" where
  "all_present c = (truthy (c_sessionId c) \<and> truthy (c_token c) \<and> truthy (c_endpoint c))"

definition resolutions :: "connection \<Rightarrow> nat" where
  "resolutions c = length (filter (\<lambda>e. e = PendingResolved) (c_events c))"

section \<open>Player (structures/Player)\<close>

datatype player_state =
  PS_CONNECTING | PS_CONNECTED | PS_PLAYING | PS_PAUSED | PS_STOPPED | PS_DISCONNECTED | PS_DESTROYED

text \<open>Bodies of the player-update REST calls the Player issues through its Node.\<close>

record voice_body =
  vb_sessionId :: jsval
  vb_token :: jsval
  vb_endpoint :: jsval

record play_body =
  pb_encoded :: "string option"
  pb_position :: "int option"
  pb_endTime :: "int option"
  pb_filters :: "string option"
  pb_volume :: int

datatype rest_call =
    PatchVoice voice_body
  | PatchPlay play_body bool
  | PatchPaused bool
  | DeletePlayer

datatype player_event = QUEUE_END

datatype inactivity_reason = R_paused | R_empty | R_stopped

record inactivity =
  in_enabled :: bool
  in_timeout :: int
  in_pausedTimeout :: int
  in_emptyTimeout :: int

record play_options =
  po_startTime :: "int option"
  po_endTime :: "int option"
  po_noReplace :: bool

definition no_play_options :: play_options where
  "no_play_options = \<lparr> po_startTime = None, po_endTime = None, po_noReplace = False \<rparr>"

text \<open>
  The Player. \<open>p_node\<close> is the name of the bound Node; \<open>p_filters\<close> is the payload of the
  filter manager when a filter is active; \<open>p_sent\<close> logs every REST call issued, with
  the Node it went to; \<open>p_providerCalls\<close> logs the tracks the autoplay provider was
  invoked with; \<open>p_warnings\<close> is what went to the logger.
\<close>

record player =
  p_guildId :: string
  p_volume :: int
  p_state :: player_state
  p_queue :: queue
  p_filters :: "string option"
  p_connection :: connection
  p_node :: "string option"
  p_playing :: bool
  p_paused :: bool
  p_position :: int
  p_positionTimestamp :: int
  p_connected :: bool
  p_inactivity :: inactivity
  p_inactivityTimer :: "int option"
  p_preloadedTrack :: "track option"
  p_events :: "player_event list"
  p_sent :: "(string \<times> rest_call) list"
  p_providerCalls :: "track list"
  p_warnings :: "string list"

definition Player_new :: "string \<Rightarrow> string option \<Rightarrow> player" where
  "Player_new guildId nd = \<lparr> p_guildId = guildId, p_volume = 100, p_state = PS_CONNECTING,
     p_queue = Queue_new, p_filters = None, p_connection = Connection_new, p_node = nd,
     p_playing = False, p_paused = False, p_position = 0, p_positionTimestamp = 0,
     p_connected = False,
     p_inactivity = \<lparr> in_enabled = True, in_timeout = 300000, in_pausedTimeout = 600000,
                      in_emptyTimeout = 30000 \<rparr>,
     p_inactivityTimer = None, p_preloadedTrack = None, p_events = [], p_sent = [],
     p_providerCalls = [], p_warnings = [] \<rparr>"

text \<open>
  What surrounds the Player: the manager's Node pool, the outcome of a REST call on a
  Node (\<open>True\<close> when the backend answers with a status below 400), and the clock.
\<close>

record env =
  e_nodes :: "node list"
  e_rest :: "string \<Rightarrow> rest_call \<Rightarrow> bool"
  e_now :: int

text \<open>
  A REST call through the bound Node: calling a method of a missing Node is a
  TypeError; a failing request throws.
\<close>

definition Node_rest :: "env \<Rightarrow> string option \<Rightarrow> rest_call \<Rightarrow> player \<Rightarrow> js_error option \<times> player" where
  "Node_rest env nd call p =
     (case nd of
        None \<Rightarrow> (Some (Error ''TypeError''), p)
      | Some nm \<Rightarrow>
          (let p1 = p\<lparr>p_sent := p_sent p @ [(nm, call)]\<rparr>
           in if e_rest env nm call then (None, p1) else (Some (Error ''REST failed''), p1)))"

definition Player_estimatedPosition :: "env \<Rightarrow> player \<Rightarrow> int" where
  "Player_estimatedPosition env p =
     (if \<not> p_playing p \<or> p_paused p then p_position p
      else p_position p + (e_now env - p_positionTimestamp p))"

definition Player_sendVoiceUpdate :: "env \<Rightarrow> jsval \<Rightarrow> player \<Rightarrow> js_error option \<times> player" where
  "Player_sendVoiceUpdate env data p =
     (let p1 = (if p_node p = None
                  then p\<lparr>p_node := map_option n_name
                         (NodeManager_getBest (c_region (p_connection p)) (e_nodes env))\<rparr>
                else p)
      in Node_rest env (p_node p1)
           (PatchVoice \<lparr> vb_sessionId = js_get data ''sessionId'',
                          vb_token = js_get data ''token'',
                          vb_endpoint = js_get data ''endpoint'' \<rparr>) p1)"

definition Player_resetInactivityTimer :: "player \<Rightarrow> player" where
  "Player_resetInactivityTimer p =
     (if p_inactivityTimer p \<noteq> None then p\<lparr>p_inactivityTimer := None\<rparr> else p)"

definition Player_startInactivityTimer :: "inactivity_reason \<Rightarrow> player \<Rightarrow> player" where
  "Player_startInactivityTimer reason p =
     (if \<not> in_enabled (p_inactivity p) then p
      else
        (let p1 = Player_resetInactivityTimer p;
             timeout = (case reason of
                          R_paused \<Rightarrow> in_pausedTimeout (p_inactivity p1)
                        | R_empty \<Rightarrow> in_emptyTimeout (p_inactivity p1)
                        | R_stopped \<Rightarrow> in_timeout (p_inactivity p1))
         in p1\<lparr>p_inactivityTimer := Some timeout\<rparr>))"

definition Player_preloadNextTrack :: "player \<Rightarrow> player" where
  "Player_preloadNextTrack p =
     (case Queue_at 0 (p_queue p) of
        None \<Rightarrow> p
      | Some nextTrack \<Rightarrow>
          (if \<not> truthy (encoded nextTrack) then p else p\<lparr>p_preloadedTrack := Some nextTrack\<rparr>))"

text \<open>JavaScript truthiness of an optional number: absent and 0 are falsy.\<close>

definition truthy_num :: "int option \<Rightarrow> bool" where
  "truthy_num x = (case x of None \<Rightarrow> False | Some n \<Rightarrow> n \<noteq> 0)"

text \<open>The part of \<open>play\<close> after the track to play has become the queue's current track.\<close>

definition Player_play_current :: "env \<Rightarrow> play_options \<Rightarrow> player \<Rightarrow> (js_error + track option) \<times> player" where
  "Player_play_current env opts p =
     (case current (p_queue p) of
        None \<Rightarrow> (Inl (Error ''TypeError''), p)
      | Some cur \<Rightarrow>
          (let playOptions = \<lparr> pb_encoded = encoded cur,
                 pb_position = (if truthy_num (po_startTime opts) then po_startTime opts else None),
                 pb_endTime = (if truthy_num (po_endTime opts) then po_endTime opts else None),
                 pb_filters = p_filters p,
                 pb_volume = p_volume p \<rparr>;
               r = Node_rest env (p_node p) (PatchPlay playOptions (po_noReplace opts)) p
           in (case fst r of
                 Some e \<Rightarrow> (Inl e, snd r)
               | None \<Rightarrow>
                   (let p1 = (snd r)\<lparr>p_playing := True, p_paused := False, p_state := PS_PLAYING\<rparr>;
                        p2 = Player_resetInactivityTimer p1;
                        p3 = Player_preloadNextTrack p2
                    in (Inr (current (p_queue p3)), p3)))))"

text \<open>The tail of \<open>_handleQueueEnd\<close>: the idle stopped state with the empty-queue timeout.\<close>

definition Player_idle :: "player \<Rightarrow> player" where
  "Player_idle p =
     Player_startInactivityTimer R_empty (p\<lparr>p_playing := False, p_state := PS_STOPPED\<rparr>)"

lemma fold_add_one_tracks:
  "tracks (fst (fold (add_one default_add_options) ts (q, acc))) = tracks q @ ts"
  by (induction ts arbitrary: q acc) (simp_all add: add_one_def default_add_options_def Let_def)

lemma Queue_add_tracks:
  "tracks (snd (Queue_add ts default_add_options q)) = tracks q @ ts"
  by (simp add: Queue_add_def Let_def fold_add_one_tracks)

lemma Queue_next_nonempty:
  "tracks q \<noteq> [] \<Longrightarrow> \<exists>y. fst (Queue_next q) = Some y"
  by (auto simp: Queue_next_def addToHistory_def Let_def split: option.splits list.splits)

text \<open>
  \<open>play\<close> and \<open>_handleQueueEnd\<close> call each other. A call of \<open>play\<close> without a track on an
  exhausted queue weighs 2, \<open>_handleQueueEnd\<close> weighs 1 and any other call of \<open>play\<close> 0:
  each call descends, because \<open>_handleQueueEnd\<close> calls \<open>play\<close> only after adding tracks.
\<close>

definition play_measure :: "(env \<times> track option \<times> play_options \<times> player) + (env \<times> player) \<Rightarrow> nat" where
  "play_measure x =
     (case x of
        Inl a \<Rightarrow> (if fst (snd a) = None \<and> fst (Queue_next (p_queue (snd (snd (snd a))))) = None
                  then 2 else 0)
      | Inr b \<Rightarrow> 1)"

function Player_play :: "env \<Rightarrow> track option \<Rightarrow> play_options \<Rightarrow> player \<Rightarrow> (js_error + track option) \<times> player"
  and Player_handleQueueEnd :: "env \<Rightarrow> player \<Rightarrow> player"
where
  "Player_play env trk opts p =
     (case trk of
        None \<Rightarrow>
          (let r = Queue_next (p_queue p);
               p1 = p\<lparr>p_queue := snd r\<rparr>
           in (case fst r of
                 None \<Rightarrow>
                   (Inr None,
                    Player_handleQueueEnd env (p1\<lparr>p_events := p_events p1 @ [QUEUE_END]\<rparr>))
               | Some t \<Rightarrow> Player_play_current env opts p1))
      | Some t \<Rightarrow>
          Player_play_current env opts (p\<lparr>p_queue := (p_queue p)\<lparr>current := Some t\<rparr>\<rparr>))"
| "Player_handleQueueEnd env p =
     (if autoplay (p_queue p) \<and> autoplayProvider (p_queue p) \<noteq> None then
        (let r = Queue_getAutoplayTracks (p_queue p);
             p1 = p\<lparr>p_providerCalls := p_providerCalls p @ snd r\<rparr>
         in (case fst r of
               Inl e \<Rightarrow> Player_idle (p1\<lparr>p_warnings := p_warnings p1 @ [''Autoplay failed'']\<rparr>)
             | Inr ts \<Rightarrow>
                 (if length ts > 0 then
                    snd (Player_play env None no_play_options
                           (p1\<lparr>p_queue := snd (Queue_add ts default_add_options (p_queue p1))\<rparr>))
                  else Player_idle p1)))
      else Player_idle p)"
  by pat_completeness auto
termination
  apply (relation "measure play_measure")
    apply (simp_all add: play_measure_def)
  apply (rule Queue_next_nonempty)
  apply (simp add: Queue_add_tracks)
  done

declare Player_play.simps [simp del] Player_handleQueueEnd.simps [simp del]

definition Player_pause :: "env \<Rightarrow> player \<Rightarrow> js_error option \<times> player" where
  "Player_pause env p =
     (if \<not> p_playing p then (None, p)
      else
        (let r = Node_rest env (p_node p) (PatchPaused True) p
         in (case fst r of
               Some e \<Rightarrow> (Some e, snd r)
             | None \<Rightarrow>
                 (None, Player_startInactivityTimer R_paused
                          ((snd r)\<lparr>p_paused := True, p_state := PS_PAUSED\<rparr>)))))"

definition Player_resume :: "env \<Rightarrow> player \<Rightarrow> js_error option \<times> player" where
  "Player_resume env p =
     (if \<not> p_paused p then (None, p)
      else
        (let r = Node_rest env (p_node p) (PatchPaused False) p
         in (case fst r of
               Some e \<Rightarrow> (Some e, snd r)
             | None \<Rightarrow>
                 (None, Player_resetInactivityTimer
                          ((snd r)\<lparr>p_paused := False, p_state := PS_PLAYING\<rparr>)))))"

text \<open>
  \<open>migrateNode\<close>: the target Node is given by its name. The outcome of deleting the
  player on the old Node is dropped by the empty catch block.
\<close>

definition Player_migrateNode :: "env \<Rightarrow> string \<Rightarrow> player \<Rightarrow> js_error option \<times> player" where
  "Player_migrateNode env newNode p =
     (let oldNode = p_node p;
          p1 = snd (Node_rest env oldNode DeletePlayer p);
          p2 = p1\<lparr>p_node := Some newNode\<rparr>;
          r1 = (if p_connected p2
                  then Player_sendVoiceUpdate env (Connection_getVoicePayload (p_connection p2)) p2
                else (None, p2))
      in (case fst r1 of
            Some e \<Rightarrow> (Some e, snd r1)
          | None \<Rightarrow>
              (let p3 = snd r1
               in if current (p_queue p3) \<noteq> None \<and> p_playing p3 then
                    (let r2 = Player_play env (current (p_queue p3))
                                \<lparr> po_startTime = Some (Player_estimatedPosition env p3),
                                  po_endTime = None, po_noReplace = False \<rparr> p3
                     in (case fst r2 of Inl e \<Rightarrow> (Some e, snd r2) | Inr t \<Rightarrow> (None, snd r2)))
                  else (None, p3))))"

section \<open>Example values\<close>

definition trackA :: track where
  "trackA = \<lparr> encoded = Some ''QQ=='', ident = ''a'', title = ''A'', author = ''x'',
               duration = 180000, requester = None \<rparr>"

definition trackB :: track where
  "trackB = \<lparr> encoded = Some ''Qg=='', ident = ''b'', title = ''B'', author = ''x'',
               duration = 200000, requester = None \<rparr>"

definition trackC :: track where
  "trackC = \<lparr> encoded = Some ''Qw=='', ident = ''c'', title = ''C'', author = ''y'',
               duration = 240000, requester = None \<rparr>"

text \<open>Two connected Nodes of priority 1 with penalties 50 and 10, and one that is down.\<close>

definition nodeA :: node where
  "nodeA = (Node_new ''A'')\<lparr> n_state := CONNECTED,
     n_stats := Some \<lparr> st_players = 50, st_playingPlayers = 0, st_cpu_systemLoad = None,
                       st_frameStats = None \<rparr> \<rparr>"

definition nodeB :: node where
  "nodeB = (Node_new ''B'')\<lparr> n_state := CONNECTED, n_regions := [''eu''],
     n_stats := Some \<lparr> st_players = 4, st_playingPlayers = 4, st_cpu_systemLoad = None,
                       st_frameStats = None \<rparr> \<rparr>"

definition nodeC :: node where
  "nodeC = (Node_new ''C'')\<lparr> n_priority := 0, n_state := RECONNECTING \<rparr>"

text \<open>A Node whose socket connection attempt was the last allowed retry.\<close>

definition exhausted_node :: node where
  "exhausted_node = (Node_new ''X'')\<lparr> n_state := CONNECTING, n_reconnectAttempts := 5 \<rparr>"

text \<open>An environment in which Node X is unreachable and the clock reads 5000.\<close>

definition env0 :: env where
  "env0 = \<lparr> e_nodes = [nodeA, nodeB], e_rest = (\<lambda>nm call. nm \<noteq> ''X''), e_now = 5000 \<rparr>"

text \<open>A Player with autoplay on, playing its last track.\<close>

definition autoplay_player :: player where
  "autoplay_player = (Player_new ''g'' (Some ''A''))
     \<lparr> p_queue := Queue_new\<lparr>current := Some trackA, autoplay := True,
                            autoplayProvider := Some (\<lambda>t. Inr [trackB])\<rparr>,
       p_playing := True, p_state := PS_PLAYING \<rparr>"

text \<open>
  A Player bound to Node X, voice-connected, playing track A, last sampled at position
  30000 when the clock read 4000.
\<close>

definition migrating_player :: player where
  "migrating_player = (Player_new ''g'' (Some ''X''))
     \<lparr> p_queue := Queue_new\<lparr>current := Some trackA\<rparr>,
       p_connection := Connection_new\<lparr>c_channelId := Some ''ch'', c_sessionId := Some ''s'',
          c_token := Some ''t'', c_endpoint := Some ''us-east1.example'',
          c_connected := True\<rparr>,
       p_playing := True, p_state := PS_PLAYING, p_connected := True,
       p_position := 30000, p_positionTimestamp := 4000 \<rparr>"

text \<open>A Player that is playing and already paused.\<close>

definition paused_player :: player where
  "paused_player = (Player_new ''g'' (Some ''A''))
     \<lparr> p_queue := Queue_new\<lparr>current := Some trackA\<rparr>,
       p_playing := True, p_paused := True, p_state := PS_PAUSED \<rparr>"

text \<open>A Connection that has completed the voice handshake.\<close>

definition ready_connection :: connection where
  "ready_connection =
     Connection_handleVoiceServerUpdate \<lparr> sv_token = Some ''t'', sv_endpoint = Some ''eu-west3.example'' \<rparr>
       (Connection_handleVoiceStateUpdate \<lparr> vs_channelId = Some ''ch'', vs_sessionId = Some ''s'' \<rparr>
          (Connection_connect (Some ''ch'') True False 15000 Connection_new))"

section \<open>Auxiliary notions for the proofs\<close>

text \<open>What one call of \<open>next()\<close> does to the queue under track-loop.\<close>

definition track_loop_step :: "track \<Rightarrow> queue \<Rightarrow> queue" where
  "track_loop_step c q = addToHistory c (q\<lparr>previous := Some c\<rparr>)"

text \<open>
  The track \<open>next()\<close> treats as just finished: the current track or, when there is none,
  what \<open>previous\<close> still holds.
\<close>

definition finished_track :: "queue \<Rightarrow> track option" where
  "finished_track q = (case current q of Some c \<Rightarrow> Some c | None \<Rightarrow> previous q)"

text \<open>\<open>alternate n a b\<close> is \<open>a, b, a, b, ...\<close> of length \<open>n\<close>.\<close>

fun alternate :: "nat \<Rightarrow> 'a \<Rightarrow> 'a \<Rightarrow> 'a list" where
  "alternate 0 a b = []"
| "alternate (Suc n) a b = a # alternate n b a"

text \<open>
  The states of a queue-loop over a single-track main lane: the lane drained and \<open>t\<close>
  replayed from \<open>previous\<close>, or \<open>cur\<close> playing while \<open>lane\<close> waits in the main lane.
\<close>

definition drained :: "track \<Rightarrow> queue \<Rightarrow> bool" where
  "drained t q = (loop q = QUEUE \<and> priorityTracks q = [] \<and> tracks q = [] \<and> current q = Some t)"

definition rotating :: "track \<Rightarrow> track \<Rightarrow> queue \<Rightarrow> bool" where
  "rotating cur lane q = (loop q = QUEUE \<and> priorityTracks q = [] \<and> tracks q = [lane]
       \<and> current q = Some cur)"

text \<open>The list of candidates the code sorts.\<close>

definition getBest_candidates :: "string option \<Rightarrow> node list \<Rightarrow> node list" where
  "getBest_candidates region pool =
     (let connected = NodeManager_getConnected pool
      in case region of
           None \<Rightarrow> connected
         | Some r \<Rightarrow>
             (if r \<noteq> [] then
                (let regionNodes =
                       filter (\<lambda>n. length (n_regions n) = 0 \<or> r \<in> set (n_regions n)) connected
                 in if length regionNodes > 0 then regionNodes else connected)
              else connected))"

text \<open>
  The resolutions of the connect waiter so far plus the one still possible while a
  waiter is pending: no update handler changes this number.
\<close>

definition waiter_potential :: "connection \<Rightarrow> nat" where
  "waiter_potential c = resolutions c + (if c_pendingConnection c then 1 else 0)"

text \<open>Queues used as concrete inputs.\<close>

definition two_lane_queue :: queue where
  "two_lane_queue = Queue_new\<lparr>tracks := [trackA], priorityTracks := [trackB]\<rparr>"

definition track_loop_queue :: queue where
  "track_loop_queue = Queue_new\<lparr>loop := TRACK, current := Some trackA, tracks := [trackB]\<rparr>"

definition queue_loop_queue :: queue where
  "queue_loop_queue = Queue_new\<lparr>loop := QUEUE, tracks := [trackA]\<rparr>"

definition jump_queue :: queue where
  "jump_queue = Queue_new\<lparr>current := Some trackA, tracks := [trackB, trackC]\<rparr>"

section \<open>Queue: out-of-range indices\<close>

text \<open>
  Every number below 0 or at least \<open>size\<close>, the infinities included, is turned away:
  \<open>remove\<close> returns nothing, \<open>move\<close> and \<open>swap\<close> return false as soon as one argument is
  such a number, and both lanes stay as they were. \<open>remove\<close> turns away \<open>NaN\<close> as well.
\<close>

lemma not_in_range_cases: "\<not> in_range x n \<Longrightarrow> x = NaN \<or> js_lt x 0 \<or> js_ge x n"
  by (cases x) auto

lemma remove_out_of_range:
  "\<not> in_range index (Queue_size q) \<Longrightarrow> Queue_remove index q = (None, q)"
  by (cases index) (auto simp: Queue_remove_def Queue_size_def Let_def)

lemma move_swap_reject_numbers:
  assumes "js_lt x 0 \<or> js_ge x (Queue_size q) \<or> js_lt y 0 \<or> js_ge y (Queue_size q)"
  shows "Queue_move x y q = (False, map Some (priorityTracks q), map Some (tracks q))
       \<and> Queue_swap x y q = (False, map Some (priorityTracks q), map Some (tracks q))"
  using assms by (simp add: Queue_move_def Queue_swap_def)

text \<open>
  C10 at its failing inputs. \<open>NaN\<close> is outside \<open>[0, size)\<close>, and \<open>remove(NaN)\<close> returns
  nothing and changes nothing; but \<open>move(NaN, 1)\<close> and \<open>swap(NaN, 0)\<close> pass the guard and
  return true. On the priority lane \<open>[B]\<close> and the main lane \<open>[A]\<close>, \<open>move\<close> leaves the
  lanes \<open>[A]\<close> and \<open>[B]\<close>, and \<open>swap\<close> leaves a priority lane holding \<open>undefined\<close>.
\<close>

theorem C10_move_swap_accept_NaN:
  "priorityTracks two_lane_queue = [trackB] \<and> tracks two_lane_queue = [trackA]
   \<and> in_range NaN (Queue_size two_lane_queue) = False
   \<and> Queue_remove NaN two_lane_queue = (None, two_lane_queue)
   \<and> Queue_move NaN (Fin 1) two_lane_queue = (True, [Some trackA], [Some trackB])
   \<and> Queue_swap NaN (Fin 0) two_lane_queue = (True, [None], [Some trackA])"
  by (simp add: two_lane_queue_def Queue_new_def Queue_remove_def Queue_move_def
        Queue_swap_def Queue_size_def splice_start_def js_trunc_def js_read_def js_write_def
        Let_def)

section \<open>Queue: advancing under the loop modes\<close>

lemma next_track_loop:
  "loop q = TRACK \<Longrightarrow> current q = Some c \<Longrightarrow>
   Queue_next q = (Some c, track_loop_step c q)"
  by (simp add: Queue_next_def addToHistory_def track_loop_step_def Let_def)

lemma track_loop_step_fields:
  "loop (track_loop_step c q) = loop q"
  "current (track_loop_step c q) = current q"
  "tracks (track_loop_step c q) = tracks q"
  "priorityTracks (track_loop_step c q) = priorityTracks q"
  "maxHistorySize (track_loop_step c q) = maxHistorySize q"
  "previous (track_loop_step c q) = Some c"
  by (simp_all add: track_loop_step_def addToHistory_def Let_def)

lemma track_loop_step_history:
  "int (length (history q)) < maxHistorySize q \<Longrightarrow>
   history (track_loop_step c q) = history q @ [c]"
  by (simp add: track_loop_step_def addToHistory_def Let_def)

lemma next_n_track_loop:
  "loop q = TRACK \<Longrightarrow> current q = Some c \<Longrightarrow>
   Queue_next_n n q = (replicate n (Some c), (track_loop_step c ^^ n) q)"
proof (induction n arbitrary: q)
  case 0
  then show ?case by simp
next
  case (Suc n)
  have step: "Queue_next q = (Some c, track_loop_step c q)"
    using Suc.prems by (rule next_track_loop)
  have "Queue_next_n n (track_loop_step c q)
        = (replicate n (Some c), (track_loop_step c ^^ n) (track_loop_step c q))"
    using Suc.prems by (intro Suc.IH) (simp_all add: track_loop_step_fields)
  then show ?case
    using step by (simp add: funpow_swap1)
qed

lemma funpow_track_loop_fields:
  "tracks ((track_loop_step c ^^ n) q) = tracks q"
  "priorityTracks ((track_loop_step c ^^ n) q) = priorityTracks q"
  "current ((track_loop_step c ^^ n) q) = current q"
  "maxHistorySize ((track_loop_step c ^^ n) q) = maxHistorySize q"
  by (induction n) (simp_all add: track_loop_step_fields)

lemma funpow_track_loop_history:
  "int (length (history q)) + int n \<le> maxHistorySize q \<Longrightarrow>
   history ((track_loop_step c ^^ n) q) = history q @ replicate n c"
proof (induction n)
  case 0
  then show ?case by simp
next
  case (Suc n)
  then have ih: "history ((track_loop_step c ^^ n) q) = history q @ replicate n c"
    by simp
  have "int (length (history ((track_loop_step c ^^ n) q)))
        < maxHistorySize ((track_loop_step c ^^ n) q)"
    using Suc.prems by (simp add: ih funpow_track_loop_fields)
  then show ?case
    by (simp add: track_loop_step_history ih replicate_append_same)
qed

text \<open>
  C3 (as the code has it). Under track-loop with a current track \<open>c\<close>, \<open>N\<close> calls of
  \<open>next()\<close> return \<open>c\<close> each time and leave both lanes and the current track unchanged;
  but every call records \<open>c\<close> as previous and pushes it onto the history through
  \<open>_addToHistory\<close>, so the history grows by \<open>N\<close> entries as long as it stays within
  \<open>maxHistorySize\<close> (beyond it the oldest entry is dropped).
\<close>

theorem C3_track_loop_pushes_history:
  assumes "loop q = TRACK" and "current q = Some c"
  shows "fst (Queue_next_n n q) = replicate n (Some c)
       \<and> tracks (snd (Queue_next_n n q)) = tracks q
       \<and> priorityTracks (snd (Queue_next_n n q)) = priorityTracks q
       \<and> current (snd (Queue_next_n n q)) = Some c
       \<and> snd (Queue_next q) = addToHistory c (q\<lparr>previous := Some c\<rparr>)
       \<and> (int (length (history q)) + int n \<le> maxHistorySize q \<longrightarrow>
            history (snd (Queue_next_n n q)) = history q @ replicate n c)"
  using assms
  by (simp add: next_n_track_loop next_track_loop funpow_track_loop_fields
        funpow_track_loop_history track_loop_step_def)

theorem C3_track_loop_witness:
  "loop track_loop_queue = TRACK \<and> current track_loop_queue = Some trackA
   \<and> int (length (history track_loop_queue)) + int 3 \<le> maxHistorySize track_loop_queue
   \<and> fst (Queue_next_n 3 track_loop_queue) = replicate 3 (Some trackA)
   \<and> tracks (snd (Queue_next_n 3 track_loop_queue)) = [trackB]
   \<and> history (snd (Queue_next_n 3 track_loop_queue)) = replicate 3 trackA"
proof -
  have h: "loop track_loop_queue = TRACK" "current track_loop_queue = Some trackA"
    by (simp_all add: track_loop_queue_def Queue_new_def)
  have f: "history track_loop_queue = []" "maxHistorySize track_loop_queue = 50"
    "tracks track_loop_queue = [trackB]"
    by (simp_all add: track_loop_queue_def Queue_new_def)
  show ?thesis
    using C3_track_loop_pushes_history[OF h, of 3] h f
    by simp
qed

text \<open>
  The sentence of the specification fails: on a fresh track-loop queue one call of \<open>next()\<close> already
  grows the history from empty to one entry.
\<close>

theorem C3_counterexample:
  "loop track_loop_queue = TRACK \<and> current track_loop_queue = Some trackA
   \<and> history track_loop_queue = []
   \<and> fst (Queue_next track_loop_queue) = Some trackA
   \<and> history (snd (Queue_next track_loop_queue)) = [trackA]"
  by (simp add: track_loop_queue_def Queue_new_def Queue_next_def addToHistory_def Let_def)

lemma next_drained: "drained t q \<Longrightarrow> fst (Queue_next q) = Some t \<and> drained t (snd (Queue_next q))"
  by (simp add: drained_def Queue_next_def addToHistory_def Let_def)

lemma next_rotating:
  "rotating a b q \<Longrightarrow> fst (Queue_next q) = Some b \<and> rotating b a (snd (Queue_next q))"
  by (simp add: rotating_def Queue_next_def addToHistory_def Let_def)

lemma next_n_drained:
  "drained t q \<Longrightarrow> fst (Queue_next_n n q) = replicate n (Some t) \<and> drained t (snd (Queue_next_n n q))"
  by (induction n arbitrary: q) (simp_all add: next_drained Let_def)

lemma next_n_rotating:
  "rotating a b q \<Longrightarrow>
   fst (Queue_next_n n q) = map Some (alternate n b a)
   \<and> rotating (if even n then a else b) (if even n then b else a) (snd (Queue_next_n n q))"
proof (induction n arbitrary: a b q)
  case 0
  then show ?case by simp
next
  case (Suc n)
  have step: "fst (Queue_next q) = Some b \<and> rotating b a (snd (Queue_next q))"
    using Suc.prems by (rule next_rotating)
  then have "fst (Queue_next_n n (snd (Queue_next q))) = map Some (alternate n a b)
     \<and> rotating (if even n then b else a) (if even n then a else b)
         (snd (Queue_next_n n (snd (Queue_next q))))"
    by (intro Suc.IH) simp
  then show ?case
    using step by (cases "even n") (simp_all add: Let_def)
qed

lemma next_first:
  "loop q = QUEUE \<Longrightarrow> priorityTracks q = [] \<Longrightarrow> tracks q = [t] \<Longrightarrow>
   finished_track q = Some x \<Longrightarrow>
   fst (Queue_next q) = Some t \<and> rotating t x (snd (Queue_next q))"
  by (auto simp: finished_track_def rotating_def Queue_next_def addToHistory_def Let_def
        split: option.splits)

lemma next_fresh:
  "loop q = QUEUE \<Longrightarrow> priorityTracks q = [] \<Longrightarrow> tracks q = [t] \<Longrightarrow>
   finished_track q = None \<Longrightarrow>
   fst (Queue_next q) = Some t \<and> drained t (snd (Queue_next q))"
  by (auto simp: finished_track_def drained_def Queue_next_def Let_def split: option.splits)

lemma alternate_same: "alternate n t t = replicate n t"
  by (induction n) simp_all

lemma alternate_3: "alternate 3 a b = [a, b, a]"
  by (simp add: numeral_3_eq_3)

lemma replicate_3: "replicate 3 a = [a, a, a]"
  by (simp add: numeral_3_eq_3)

text \<open>
  C4 (as the code has it). Under queue-loop with an empty priority lane and a main lane
  holding the single track \<open>t\<close>, let \<open>x\<close> be the track that has just finished: the current
  track or, when there is none, the previous one. If there is such an \<open>x\<close>, \<open>N \<ge> 1\<close>
  calls of \<open>next()\<close> return \<open>t, x, t, x, ...\<close> in turn, so \<open>t\<close> on every call when \<open>x\<close> is
  \<open>t\<close>, and after each call the main lane length is back to 1, the just-finished track
  having been re-appended. If the queue has neither a current nor a previous track,
  every call returns \<open>t\<close> and the main lane is empty after each call: \<open>t\<close> is dequeued
  with nothing to re-append and then replayed from \<open>previous\<close>.
\<close>

theorem C4_queue_loop_single_track:
  assumes "loop q = QUEUE" and "priorityTracks q = []" and "tracks q = [t]" and "0 < n"
  shows "(finished_track q = None \<longrightarrow>
            fst (Queue_next_n n q) = replicate n (Some t)
            \<and> tracks (snd (Queue_next_n n q)) = [])
       \<and> (finished_track q = Some x \<longrightarrow>
            fst (Queue_next_n n q) = map Some (alternate n t x)
            \<and> tracks (snd (Queue_next_n n q)) = [if odd n then x else t]
            \<and> length (tracks (snd (Queue_next_n n q))) = 1)
       \<and> (finished_track q = Some t \<longrightarrow> fst (Queue_next_n n q) = replicate n (Some t))
       \<and> priorityTracks (snd (Queue_next_n n q)) = []"
proof -
  obtain m where n: "n = Suc m" using assms(4) by (cases n) auto
  have fresh: "fst (Queue_next_n n q) = replicate n (Some t)
       \<and> tracks (snd (Queue_next_n n q)) = [] \<and> priorityTracks (snd (Queue_next_n n q)) = []"
    if "finished_track q = None"
  proof -
    have first: "fst (Queue_next q) = Some t \<and> drained t (snd (Queue_next q))"
      using assms(1-3) that by (rule next_fresh)
    then have "fst (Queue_next_n m (snd (Queue_next q))) = replicate m (Some t)
         \<and> drained t (snd (Queue_next_n m (snd (Queue_next q))))"
      by (intro next_n_drained) simp
    then show ?thesis
      using first by (simp add: n Let_def drained_def)
  qed
  have rot: "fst (Queue_next_n n q) = map Some (alternate n t y)
       \<and> tracks (snd (Queue_next_n n q)) = [if odd n then y else t]
       \<and> priorityTracks (snd (Queue_next_n n q)) = []"
    if "finished_track q = Some y" for y
  proof -
    have first: "fst (Queue_next q) = Some t \<and> rotating t y (snd (Queue_next q))"
      using assms(1-3) that by (rule next_first)
    then have "fst (Queue_next_n m (snd (Queue_next q))) = map Some (alternate m y t)
         \<and> rotating (if even m then t else y) (if even m then y else t)
             (snd (Queue_next_n m (snd (Queue_next q))))"
      by (intro next_n_rotating) simp
    then show ?thesis
      using first by (simp add: n Let_def rotating_def)
  qed
  have same: "fst (Queue_next_n n q) = replicate n (Some t)" if "finished_track q = Some t"
    using rot[OF that] by (simp add: alternate_same)
  have prio: "priorityTracks (snd (Queue_next_n n q)) = []"
    using fresh rot by (cases "finished_track q") simp_all
  show ?thesis
    using fresh rot[of x] same prio by simp
qed

theorem C4_queue_loop_witness:
  "loop queue_loop_queue = QUEUE \<and> priorityTracks queue_loop_queue = []
   \<and> tracks queue_loop_queue = [trackA] \<and> (0::nat) < 3
   \<and> finished_track queue_loop_queue = None
   \<and> fst (Queue_next_n 3 queue_loop_queue) = replicate 3 (Some trackA)
   \<and> tracks (snd (Queue_next_n 3 queue_loop_queue)) = []
   \<and> finished_track (queue_loop_queue\<lparr>current := Some trackB\<rparr>) = Some trackB
   \<and> fst (Queue_next_n 3 (queue_loop_queue\<lparr>current := Some trackB\<rparr>))
       = [Some trackA, Some trackB, Some trackA]
   \<and> tracks (snd (Queue_next_n 3 (queue_loop_queue\<lparr>current := Some trackB\<rparr>))) = [trackB]
   \<and> finished_track (queue_loop_queue\<lparr>current := Some trackA, previous := Some trackB\<rparr>)
       = Some trackA
   \<and> fst (Queue_next_n 3 (queue_loop_queue\<lparr>current := Some trackA, previous := Some trackB\<rparr>))
       = replicate 3 (Some trackA)
   \<and> length (tracks (snd (Queue_next_n 3
         (queue_loop_queue\<lparr>current := Some trackA, previous := Some trackB\<rparr>)))) = 1"
proof -
  have h: "loop queue_loop_queue = QUEUE" "priorityTracks queue_loop_queue = []"
    "tracks queue_loop_queue = [trackA]" "(0::nat) < 3"
    by (simp_all add: queue_loop_queue_def Queue_new_def)
  have f: "finished_track queue_loop_queue = None"
    "finished_track (queue_loop_queue\<lparr>current := Some trackB\<rparr>) = Some trackB"
    "finished_track (queue_loop_queue\<lparr>current := Some trackA, previous := Some trackB\<rparr>)
       = Some trackA"
    by (simp_all add: finished_track_def queue_loop_queue_def Queue_new_def)
  have odd3: "odd (3::nat)" by simp
  show ?thesis
    using C4_queue_loop_single_track[of queue_loop_queue trackA 3 trackB]
      C4_queue_loop_single_track[of "queue_loop_queue\<lparr>current := Some trackB\<rparr>" trackA 3 trackB]
      C4_queue_loop_single_track
        [of "queue_loop_queue\<lparr>current := Some trackA, previous := Some trackB\<rparr>" trackA 3 trackA]
      h f odd3
    by (simp add: alternate_3 replicate_3)
qed

text \<open>
  The sentence of the specification fails: on a fresh queue the single track is dequeued
  and the main lane stays empty; and when another track is current, the two tracks
  alternate.
\<close>

theorem C4_counterexample:
  "loop queue_loop_queue = QUEUE \<and> priorityTracks queue_loop_queue = []
   \<and> tracks queue_loop_queue = [trackA]
   \<and> fst (Queue_next queue_loop_queue) = Some trackA
   \<and> length (tracks (snd (Queue_next queue_loop_queue))) = 0
   \<and> fst (Queue_next_n 2 (queue_loop_queue\<lparr>current := Some trackB\<rparr>)) = [Some trackA, Some trackB]"
  by (simp add: queue_loop_queue_def Queue_new_def Queue_next_def addToHistory_def Let_def
        numeral_2_eq_2)

section \<open>Queue: jump and back\<close>

lemma addToHistory_last:
  "1 \<le> maxHistorySize q \<Longrightarrow> history (addToHistory t q) \<noteq> [] \<and> last (history (addToHistory t q)) = t"
  by (cases "history q") (auto simp: addToHistory_def Let_def last_tl)

lemma addToHistory_fields:
  "maxHistorySize (addToHistory t q) = maxHistorySize q"
  "tracks (addToHistory t q) = tracks q"
  "priorityTracks (addToHistory t q) = priorityTracks q"
  "current (addToHistory t q) = current q"
  by (simp_all add: addToHistory_def Let_def)

lemma fold_addToHistory_fields:
  "maxHistorySize (fold addToHistory ts q) = maxHistorySize q"
  "tracks (fold addToHistory ts q) = tracks q"
  "priorityTracks (fold addToHistory ts q) = priorityTracks q"
  "current (fold addToHistory ts q) = current q"
  by (induction ts arbitrary: q) (simp_all add: addToHistory_fields)

lemma fold_addToHistory_last:
  "1 \<le> maxHistorySize q \<Longrightarrow> ts \<noteq> [] \<Longrightarrow>
   history (fold addToHistory ts q) \<noteq> [] \<and> last (history (fold addToHistory ts q)) = last ts"
proof (induction ts arbitrary: q)
  case Nil
  then show ?case by simp
next
  case (Cons a ts)
  show ?case
  proof (cases "ts = []")
    case True
    then show ?thesis using Cons.prems(1) addToHistory_last[of q a] by simp
  next
    case False
    have "1 \<le> maxHistorySize (addToHistory a q)"
      using Cons.prems(1) by (simp add: addToHistory_fields)
    from Cons.IH[OF this False] show ?thesis using False by simp
  qed
qed

lemma last_take_nth:
  "0 < n \<Longrightarrow> n \<le> length xs \<Longrightarrow> last (take n xs) = xs ! (n - 1)"
proof -
  assume a: "0 < n" "n \<le> length xs"
  then obtain m where m: "n = Suc m" by (cases n) auto
  then have "take n xs = take m xs @ [xs ! m]"
    using a by (simp add: take_Suc_conv_app_nth)
  then show ?thesis using m by simp
qed

lemma back_current:
  "history q \<noteq> [] \<Longrightarrow> current (snd (Queue_back q)) = Some (last (history q))"
  by (simp add: Queue_back_def Let_def split: option.splits)

text \<open>
  C5 (as the code has it). \<open>jump(p)\<close> pushes the current track and then every skipped
  track onto the history, so with a history bound of at least one, \<open>back()\<close> after
  \<open>jump(p)\<close> makes current the pre-jump current track when \<open>p = 0\<close>, and the last skipped
  track, the one at position \<open>p - 1\<close> of the pre-jump concatenated view, when \<open>p \<ge> 1\<close>.
\<close>

theorem C5_jump_then_back:
  assumes "1 \<le> maxHistorySize q" and "current q = Some c"
    and "0 \<le> p" and "p < Queue_size q"
  shows "current (snd (Queue_back (snd (Queue_jump p q))))
         = Some (if p = 0 then c else (priorityTracks q @ tracks q) ! nat (p - 1))"
proof -
  let ?q1 = "addToHistory c q"
  let ?combined = "priorityTracks q @ tracks q"
  let ?skipped = "take (nat p) ?combined"
  let ?q2 = "fold addToHistory ?skipped ?q1"
  have len: "nat p < length ?combined"
    using assms(3,4) by (simp add: Queue_size_def)
  have m1: "1 \<le> maxHistorySize ?q1"
    using assms(1) by (simp add: addToHistory_fields)
  have hist: "history ?q2 \<noteq> [] \<and> last (history ?q2) = (if p = 0 then c else ?combined ! nat (p - 1))"
  proof (cases "p = 0")
    case True
    then show ?thesis using addToHistory_last[OF assms(1), of c] by simp
  next
    case False
    then have ne: "?skipped \<noteq> []" using len assms(3) by auto
    have "last ?skipped = ?combined ! (nat p - 1)"
      using len False assms(3) by (intro last_take_nth) simp_all
    moreover have "nat p - 1 = nat (p - 1)" using assms(3) by simp
    ultimately show ?thesis
      using fold_addToHistory_last[OF m1 ne] False by simp
  qed
  have jump: "history (snd (Queue_jump p q)) = history ?q2"
    using assms by (simp add: Queue_jump_def Let_def addToHistory_fields)
  have "history (snd (Queue_jump p q)) \<noteq> []"
    using hist jump by simp
  then have "current (snd (Queue_back (snd (Queue_jump p q))))
             = Some (last (history (snd (Queue_jump p q))))"
    by (rule back_current)
  then show ?thesis
    using hist jump by simp
qed

theorem C5_jump_then_back_witness:
  "1 \<le> maxHistorySize jump_queue \<and> current jump_queue = Some trackA
   \<and> (0::int) \<le> 0 \<and> 0 < Queue_size jump_queue \<and> (0::int) \<le> 1 \<and> 1 < Queue_size jump_queue
   \<and> current (snd (Queue_back (snd (Queue_jump 0 jump_queue)))) = Some trackA
   \<and> current (snd (Queue_back (snd (Queue_jump 1 jump_queue)))) = Some trackB"
proof -
  have h: "1 \<le> maxHistorySize jump_queue" "current jump_queue = Some trackA"
    by (simp_all add: jump_queue_def Queue_new_def)
  have z: "(0::int) \<le> 0" "0 < Queue_size jump_queue"
    by (simp_all add: jump_queue_def Queue_new_def Queue_size_def)
  have t: "(0::int) \<le> 1" "1 < Queue_size jump_queue"
    by (simp_all add: jump_queue_def Queue_new_def Queue_size_def)
  have f: "priorityTracks jump_queue @ tracks jump_queue = [trackB, trackC]"
    by (simp add: jump_queue_def Queue_new_def)
  show ?thesis
    using C5_jump_then_back[OF h z] C5_jump_then_back[OF h t] h z t f
    by simp
qed

text \<open>
  The sentence of the specification fails for \<open>p = 1\<close>: \<open>back()\<close> lands on the skipped track B, not on
  the track A that was current before the jump.
\<close>

theorem C5_counterexample:
  "current jump_queue = Some trackA \<and> 0 \<le> (1::int) \<and> 1 < Queue_size jump_queue
   \<and> current (snd (Queue_back (snd (Queue_jump 1 jump_queue)))) = Some trackB
   \<and> trackB \<noteq> trackA"
  by (simp add: jump_queue_def Queue_new_def Queue_jump_def Queue_back_def Queue_size_def
        addToHistory_def Let_def trackA_def trackB_def)


section \<open>NodeManager: selecting the best Node\<close>

lemma node_compare_le: "node_compare a b \<le> 0 \<longleftrightarrow> node_le a b"
  by (auto simp: node_compare_def node_le_def)

lemma node_le_total: "\<not> node_le a b \<Longrightarrow> node_le b a"
  by (auto simp: node_le_def)

lemma node_le_trans: "node_le a b \<Longrightarrow> node_le b c \<Longrightarrow> node_le a c"
  by (auto simp: node_le_def)

lemma node_le_refl: "node_le a a"
  by (simp add: node_le_def)

lemma set_insert_by: "set (insert_by cmp x xs) = insert x (set xs)"
  by (induction xs) auto

lemma set_sort_by: "set (sort_by cmp xs) = set xs"
  by (induction xs) (simp_all add: sort_by_def set_insert_by)

lemma sorted_insert_by:
  "sorted_wrt node_le xs \<Longrightarrow> sorted_wrt node_le (insert_by node_compare x xs)"
proof (induction xs)
  case Nil
  then show ?case by simp
next
  case (Cons y ys)
  show ?case
  proof (cases "node_compare x y \<le> 0")
    case True
    then have xy: "node_le x y" by (simp add: node_compare_le)
    have "\<forall>z\<in>set ys. node_le x z"
      using Cons.prems xy by (auto intro: node_le_trans)
    then show ?thesis using True xy Cons.prems by simp
  next
    case False
    then have yx: "node_le y x" by (simp add: node_compare_le node_le_total)
    have "sorted_wrt node_le (insert_by node_compare x ys)"
      using Cons by simp
    then show ?thesis using False yx Cons.prems by (simp add: set_insert_by)
  qed
qed

lemma sorted_sort_by: "sorted_wrt node_le (sort_by node_compare xs)"
  by (induction xs) (simp_all add: sort_by_def sorted_insert_by)

lemma sort_by_head_minimal:
  assumes "sort_by node_compare xs = best # rest"
  shows "best \<in> set xs \<and> (\<forall>m\<in>set xs. node_le best m)"
proof -
  have s: "set xs = insert best (set rest)"
    using set_sort_by[of node_compare xs] assms by simp
  have "sorted_wrt node_le (best # rest)"
    using sorted_sort_by[of xs] assms by simp
  then have "\<forall>m\<in>set rest. node_le best m" by simp
  then show ?thesis using s by (auto simp: node_le_refl)
qed

lemma sort_by_nonempty: "xs \<noteq> [] \<Longrightarrow> sort_by cmp xs \<noteq> []"
  using set_sort_by[of cmp xs] by (cases "sort_by cmp xs") auto

lemma getBest_unfold:
  "NodeManager_getBest region pool =
     (if NodeManager_getConnected pool = [] then None
      else (case sort_by node_compare (getBest_candidates region pool) of
              [] \<Rightarrow> None | best # _ \<Rightarrow> Some best))"
  by (simp add: NodeManager_getBest_def getBest_candidates_def Let_def)

lemma filter_filter_conj: "filter P (filter Q xs) = filter (\<lambda>x. Q x \<and> P x) xs"
  by (induction xs) auto

lemma set_getBest_candidates:
  "set (getBest_candidates region pool) = candidate_set region pool"
  by (cases region)
     (simp_all add: getBest_candidates_def candidate_set_def NodeManager_getConnected_def
        truthy_def region_ok_def Let_def filter_filter_conj)

lemma getBest_candidates_nonempty:
  "NodeManager_getConnected pool \<noteq> [] \<Longrightarrow> getBest_candidates region pool \<noteq> []"
  by (cases region) (simp_all add: getBest_candidates_def Let_def)

lemma candidate_set_connected: "n \<in> candidate_set region pool \<Longrightarrow> Node_connected n"
  by (auto simp: candidate_set_def split: if_splits)

text \<open>
  C1. \<open>getBest\<close> returns nothing exactly when no Node is connected; otherwise it returns
  a connected Node of the candidate set that is minimal there for (priority ascending,
  then penalty ascending). The candidate set is that of the specification: with a
  (non-empty) region given and some connected Node unrestricted or listing the region,
  those Nodes, else all connected Nodes. With connected Nodes A (priority 1, penalty 50)
  and B (priority 1, penalty 10), in either pool order, B is returned.
\<close>

theorem C1_getBest:
  "(filter Node_connected pool = [] \<longrightarrow> NodeManager_getBest region pool = None)
   \<and> (filter Node_connected pool \<noteq> [] \<longrightarrow> (\<exists>n. NodeManager_getBest region pool = Some n))
   \<and> (NodeManager_getBest region pool = Some best \<longrightarrow>
        Node_connected best \<and> best \<in> candidate_set region pool
        \<and> (\<forall>m\<in>candidate_set region pool. node_le best m))
   \<and> (Node_connected a \<and> Node_connected b \<and> n_priority a = 1 \<and> n_priority b = 1
        \<and> Node_penalty a = 50 \<and> Node_penalty b = 10 \<longrightarrow>
        NodeManager_getBest None [a, b] = Some b \<and> NodeManager_getBest None [b, a] = Some b)"
proof -
  have none: "NodeManager_getBest region pool = None" if "filter Node_connected pool = []"
    using that by (simp add: getBest_unfold NodeManager_getConnected_def)
  have some: "\<exists>n. NodeManager_getBest region pool = Some n"
    if "filter Node_connected pool \<noteq> []"
  proof -
    have ne: "NodeManager_getConnected pool \<noteq> []"
      using that by (simp add: NodeManager_getConnected_def)
    then have "sort_by node_compare (getBest_candidates region pool) \<noteq> []"
      by (intro sort_by_nonempty getBest_candidates_nonempty)
    then show ?thesis
      using ne by (cases "sort_by node_compare (getBest_candidates region pool)")
                  (simp_all add: getBest_unfold)
  qed
  have minimal: "Node_connected best \<and> best \<in> candidate_set region pool
        \<and> (\<forall>m\<in>candidate_set region pool. node_le best m)"
    if "NodeManager_getBest region pool = Some best"
  proof -
    have "(case sort_by node_compare (getBest_candidates region pool) of
             [] \<Rightarrow> None | b # _ \<Rightarrow> Some b) = Some best"
      using that unfolding getBest_unfold by (simp split: if_splits)
    then obtain rest where "sort_by node_compare (getBest_candidates region pool) = best # rest"
      by (cases "sort_by node_compare (getBest_candidates region pool)") simp_all
    then have "best \<in> set (getBest_candidates region pool)
               \<and> (\<forall>m\<in>set (getBest_candidates region pool). node_le best m)"
      by (rule sort_by_head_minimal)
    then have m: "best \<in> candidate_set region pool
                  \<and> (\<forall>m\<in>candidate_set region pool. node_le best m)"
      by (simp add: set_getBest_candidates)
    then show ?thesis using candidate_set_connected[of best region pool] by simp
  qed
  have scenario: "NodeManager_getBest None [a, b] = Some b \<and> NodeManager_getBest None [b, a] = Some b"
    if "Node_connected a \<and> Node_connected b \<and> n_priority a = 1 \<and> n_priority b = 1
        \<and> Node_penalty a = 50 \<and> Node_penalty b = 10"
    using that
    by (simp add: NodeManager_getBest_def NodeManager_getConnected_def sort_by_def
          node_compare_def Let_def)
  show ?thesis
    using none some minimal scenario by blast
qed

lemma penA: "Node_penalty nodeA = 50" by (simp add: Node_penalty_def nodeA_def Node_new_def)
lemma penB: "Node_penalty nodeB = 10" by (simp add: Node_penalty_def nodeB_def Node_new_def)

theorem C1_getBest_witness:
  "filter Node_connected [nodeC] = [] \<and> NodeManager_getBest (Some ''eu'') [nodeC] = None
   \<and> filter Node_connected [nodeC, nodeA, nodeB] \<noteq> []
   \<and> NodeManager_getBest (Some ''eu'') [nodeC, nodeA, nodeB] = Some nodeB
   \<and> Node_connected nodeB \<and> nodeB \<in> candidate_set (Some ''eu'') [nodeC, nodeA, nodeB]
   \<and> node_le nodeB nodeA
   \<and> Node_connected nodeA \<and> n_priority nodeA = 1 \<and> n_priority nodeB = 1
   \<and> Node_penalty nodeA = 50 \<and> Node_penalty nodeB = 10
   \<and> NodeManager_getBest None [nodeA, nodeB] = Some nodeB"
proof -
  have conn: "Node_connected nodeA" "Node_connected nodeB" "\<not> Node_connected nodeC"
    by (simp_all add: Node_connected_def nodeA_def nodeB_def nodeC_def Node_new_def)
  have prio: "n_priority nodeA = 1" "n_priority nodeB = 1"
    by (simp_all add: nodeA_def nodeB_def Node_new_def)
  have regs: "n_regions nodeA = []" "n_regions nodeB = [''eu'']"
    by (simp_all add: nodeA_def nodeB_def Node_new_def)
  have best: "NodeManager_getBest (Some ''eu'') [nodeC, nodeA, nodeB] = Some nodeB"
    using conn prio regs penA penB
    by (simp add: NodeManager_getBest_def NodeManager_getConnected_def sort_by_def
          node_compare_def Let_def)
  have inA: "nodeA \<in> candidate_set (Some ''eu'') [nodeC, nodeA, nodeB]"
    using conn regs by (simp add: candidate_set_def truthy_def region_ok_def)
  note t1 = C1_getBest[of "[nodeC]" "Some ''eu''" nodeB nodeA nodeB]
  note t2 = C1_getBest[of "[nodeC, nodeA, nodeB]" "Some ''eu''" nodeB nodeA nodeB]
  show ?thesis
    using t1 t2 best inA conn prio penA penB by simp
qed


section \<open>Connection: readiness\<close>

lemma checkReady_connected:
  "c_connected (Connection_checkReady c) = (c_connected c \<or> all_present c)"
  by (auto simp: Connection_checkReady_def all_present_def Connection_emit_def
        Connection_clearTimeout_def Let_def)

lemma checkReady_credentials:
  "c_sessionId (Connection_checkReady c) = c_sessionId c"
  "c_token (Connection_checkReady c) = c_token c"
  "c_endpoint (Connection_checkReady c) = c_endpoint c"
  by (simp_all add: Connection_checkReady_def Connection_emit_def
        Connection_clearTimeout_def Let_def)

lemma checkReady_all_present: "all_present (Connection_checkReady c) = all_present c"
  by (simp add: all_present_def checkReady_credentials)

lemma checkReady_potential: "waiter_potential (Connection_checkReady c) = waiter_potential c"
  by (simp add: waiter_potential_def resolutions_def Connection_checkReady_def
        Connection_emit_def Connection_clearTimeout_def Let_def)

lemma serverUpdate_connected:
  "c_connected (Connection_handleVoiceServerUpdate sv c)
     = (c_connected c \<or> all_present (Connection_handleVoiceServerUpdate sv c))"
  by (simp add: Connection_handleVoiceServerUpdate_def Let_def checkReady_connected
        checkReady_all_present)

lemma stateUpdate_connected:
  "c_connected (Connection_handleVoiceStateUpdate st c)
     = (if \<not> truthy (vs_channelId st) \<and> truthy (c_channelId c) then False
        else c_connected c \<or> all_present (Connection_handleVoiceStateUpdate st c))"
  by (simp add: Connection_handleVoiceStateUpdate_def Let_def checkReady_connected
        checkReady_all_present Connection_emit_def)

lemma disconnect_clears:
  "\<not> c_connected (Connection_disconnect c) \<and> c_sessionId (Connection_disconnect c) = None
   \<and> c_token (Connection_disconnect c) = None \<and> c_endpoint (Connection_disconnect c) = None"
  by (simp add: Connection_disconnect_def Connection_sendVoiceUpdate_def Connection_emit_def
        Connection_clearTimeout_def Let_def)

lemma handle_potential: "waiter_potential (Connection_handle u c) = waiter_potential c"
proof (cases u)
  case (StateUpdate st)
  have "waiter_potential (Connection_handleVoiceStateUpdate st c) = waiter_potential c"
    unfolding Connection_handleVoiceStateUpdate_def Let_def
    by (simp add: checkReady_potential)
       (simp add: waiter_potential_def resolutions_def Connection_emit_def)
  then show ?thesis using StateUpdate by simp
next
  case (ServerUpdate sv)
  have "waiter_potential (Connection_handleVoiceServerUpdate sv c) = waiter_potential c"
    unfolding Connection_handleVoiceServerUpdate_def Let_def
    by (simp add: checkReady_potential)
       (simp add: waiter_potential_def resolutions_def)
  then show ?thesis using ServerUpdate by simp
qed

lemma handle_all_potential:
  "waiter_potential (Connection_handle_all us c) = waiter_potential c"
  unfolding Connection_handle_all_def
  by (induction us arbitrary: c) (simp_all add: handle_potential)

text \<open>
  C6 (as the code has it). A voice-server update, and a voice-state update that does not
  report the loss of the channel, leave \<open>connected\<close> true when it was true before or when
  session id, token and endpoint are all non-empty afterwards, and false otherwise: the
  readiness check turns \<open>connected\<close> on exactly when the three are present, and an
  update that overwrites one of them with an empty value does not turn it off.
  \<open>connected\<close> is reset only by a voice-state update reporting the loss of the channel
  (which keeps the credentials) and by \<open>disconnect()\<close> (which clears all three). Along
  any sequence of updates the pending waiter is resolved at most once.
\<close>

theorem C6_connected_follows_readiness_check:
  "c_connected (Connection_handleVoiceServerUpdate sv c)
     = (c_connected c \<or> all_present (Connection_handleVoiceServerUpdate sv c))
   \<and> c_connected (Connection_handleVoiceStateUpdate st c)
     = (if \<not> truthy (vs_channelId st) \<and> truthy (c_channelId c) then False
        else c_connected c \<or> all_present (Connection_handleVoiceStateUpdate st c))
   \<and> \<not> c_connected (Connection_disconnect c)
   \<and> c_sessionId (Connection_disconnect c) = None
   \<and> c_token (Connection_disconnect c) = None
   \<and> c_endpoint (Connection_disconnect c) = None
   \<and> resolutions (Connection_handle_all us c)
       \<le> resolutions c + (if c_pendingConnection c then 1 else 0)"
proof -
  have "resolutions (Connection_handle_all us c) \<le> waiter_potential (Connection_handle_all us c)"
    by (simp add: waiter_potential_def)
  also have "\<dots> = waiter_potential c"
    by (rule handle_all_potential)
  also have "\<dots> = resolutions c + (if c_pendingConnection c then 1 else 0)"
    by (simp add: waiter_potential_def)
  finally have once: "resolutions (Connection_handle_all us c)
       \<le> resolutions c + (if c_pendingConnection c then 1 else 0)" .
  show ?thesis
    by (intro conjI serverUpdate_connected stateUpdate_connected once)
       (simp_all add: disconnect_clears)
qed








theorem C6_readiness_witness:
  "c_connected (Connection_handleVoiceServerUpdate \<lparr> sv_token = None, sv_endpoint = None \<rparr>
                  ready_connection)
     = (c_connected ready_connection
        \<or> all_present (Connection_handleVoiceServerUpdate
                          \<lparr> sv_token = None, sv_endpoint = None \<rparr> ready_connection))
   \<and> \<not> c_connected (Connection_disconnect ready_connection)
   \<and> c_pendingConnection (Connection_connect (Some ''ch'') True False 15000 Connection_new)
   \<and> resolutions (Connection_handle_all
         [StateUpdate \<lparr> vs_channelId = Some ''ch'', vs_sessionId = Some ''s'' \<rparr>,
          ServerUpdate \<lparr> sv_token = Some ''t'', sv_endpoint = Some ''eu-west3.example'' \<rparr>,
          StateUpdate \<lparr> vs_channelId = Some ''ch'', vs_sessionId = Some ''s'' \<rparr>,
          ServerUpdate \<lparr> sv_token = Some ''t'', sv_endpoint = Some ''eu-west3.example'' \<rparr>]
         (Connection_connect (Some ''ch'') True False 15000 Connection_new)) \<le> 1"
proof -
  have c: "c_pendingConnection (Connection_connect (Some ''ch'') True False 15000 Connection_new)"
    "resolutions (Connection_connect (Some ''ch'') True False 15000 Connection_new) = 0"
    by (simp_all add: Connection_connect_def Connection_new_def Connection_sendVoiceUpdate_def
          Connection_emit_def resolutions_def Let_def)
  show ?thesis
    using C6_connected_follows_readiness_check
            [of "\<lparr> sv_token = None, sv_endpoint = None \<rparr>" ready_connection]
          C6_connected_follows_readiness_check
            [of _ "Connection_connect (Some ''ch'') True False 15000 Connection_new" _
                "[StateUpdate \<lparr> vs_channelId = Some ''ch'', vs_sessionId = Some ''s'' \<rparr>,
                  ServerUpdate \<lparr> sv_token = Some ''t'', sv_endpoint = Some ''eu-west3.example'' \<rparr>,
                  StateUpdate \<lparr> vs_channelId = Some ''ch'', vs_sessionId = Some ''s'' \<rparr>,
                  ServerUpdate \<lparr> sv_token = Some ''t'', sv_endpoint = Some ''eu-west3.example'' \<rparr>]"]
          c
    by simp
qed

text \<open>
  The sentence of the specification fails. After the handshake, a voice-server update without token
  and endpoint leaves \<open>connected\<close> true although the token is gone; and a voice-state
  update reporting the loss of the channel resets \<open>connected\<close> although all three
  credentials, each set since the last \<open>disconnect()\<close>, are still present.
\<close>

lemmas conn_defs = ready_connection_def Connection_new_def Connection_connect_def
  Connection_handleVoiceStateUpdate_def Connection_handleVoiceServerUpdate_def
  Connection_checkReady_def Connection_emit_def Connection_sendVoiceUpdate_def
  Connection_clearTimeout_def truthy_def Let_def all_present_def

theorem C6_counterexample:
  "c_connected ready_connection
   \<and> c_connected (Connection_handleVoiceServerUpdate \<lparr> sv_token = None, sv_endpoint = None \<rparr>
                    ready_connection)
   \<and> c_token (Connection_handleVoiceServerUpdate \<lparr> sv_token = None, sv_endpoint = None \<rparr>
                 ready_connection) = None
   \<and> \<not> c_connected (Connection_handleVoiceStateUpdate
                       \<lparr> vs_channelId = None, vs_sessionId = None \<rparr> ready_connection)
   \<and> all_present (Connection_handleVoiceStateUpdate
                     \<lparr> vs_channelId = None, vs_sessionId = None \<rparr> ready_connection)"
  by (simp add: conn_defs)


section \<open>Node: reconnection\<close>

text \<open>
  The reconnect timer runs for \<open>retryDelay * 1.5 ^ (attempt - 1)\<close> plus the jitter, where
  \<open>attempt\<close> is the counter after the increment.
\<close>

lemma scheduleReconnect_delay:
  "n_reconnectTimeout (Node_scheduleReconnect rnd n)
     = Some (n_retryDelay n * (3 / 2) ^ n_reconnectAttempts n + rnd * 1000)
   \<and> n_reconnectAttempts (Node_scheduleReconnect rnd n) = Suc (n_reconnectAttempts n)
   \<and> n_state (Node_scheduleReconnect rnd n) = RECONNECTING"
  by (simp add: Node_scheduleReconnect_def Let_def)

lemma onClose_exhausted:
  "\<not> int (n_reconnectAttempts n) < n_retryAmount n \<Longrightarrow>
   n_state (Node_onClose code reason rnd n) = n_state n
   \<and> n_reconnectTimeout (Node_onClose code reason rnd n) = n_reconnectTimeout n"
  by (simp add: Node_onClose_def Let_def)

text \<open>
  C7 at its failing inputs. A Node whose socket closes with the attempt counter at
  \<open>retryAmount\<close> gets no further reconnect, but \<open>_onClose\<close> leaves its state as it was:
  \<open>CONNECTING\<close> after a failed retry, and even \<open>CONNECTED\<close> for a Node configured with
  no retries, where the claim says \<open>DISCONNECTED\<close>, the state \<open>disconnect()\<close> sets.
\<close>

theorem C7_exhausted_node_not_disconnected:
  "int (n_reconnectAttempts exhausted_node) = n_retryAmount exhausted_node
   \<and> n_state (Node_onClose 1006 ''abnormal closure'' (1 / 2) exhausted_node) = CONNECTING
   \<and> n_reconnectTimeout (Node_onClose 1006 ''abnormal closure'' (1 / 2) exhausted_node) = None
   \<and> n_state (Node_onClose 1006 ''abnormal closure'' (1 / 2)
                 ((Node_new ''Z'')\<lparr>n_retryAmount := 0, n_state := CONNECTED\<rparr>)) = CONNECTED
   \<and> n_state (Node_disconnect exhausted_node) = DISCONNECTED"
  by (simp add: exhausted_node_def Node_new_def Node_onClose_def Node_disconnect_def Let_def)


section \<open>Player: pause and resume\<close>

lemma Node_rest_ok:
  "e_rest env nm call \<Longrightarrow>
   Node_rest env (Some nm) call p = (None, p\<lparr>p_sent := p_sent p @ [(nm, call)]\<rparr>)"
  by (simp add: Node_rest_def Let_def)

lemma startInactivityTimer_fields:
  "p_sent (Player_startInactivityTimer r p) = p_sent p"
  "p_paused (Player_startInactivityTimer r p) = p_paused p"
  "p_state (Player_startInactivityTimer r p) = p_state p"
  "p_playing (Player_startInactivityTimer r p) = p_playing p"
  "p_queue (Player_startInactivityTimer r p) = p_queue p"
  "p_events (Player_startInactivityTimer r p) = p_events p"
  "p_providerCalls (Player_startInactivityTimer r p) = p_providerCalls p"
  by (simp_all add: Player_startInactivityTimer_def Player_resetInactivityTimer_def Let_def)

lemma resetInactivityTimer_fields:
  "p_sent (Player_resetInactivityTimer p) = p_sent p"
  "p_paused (Player_resetInactivityTimer p) = p_paused p"
  "p_state (Player_resetInactivityTimer p) = p_state p"
  by (simp_all add: Player_resetInactivityTimer_def)

text \<open>
  C9 (as the code has it). \<open>pause()\<close> is a no-op when the player is not playing; when it
  is playing, already paused or not, and the Node accepts the request, it issues exactly
  one paused update to the bound Node and sets the paused flag and state. \<open>resume()\<close> is
  a no-op when the player is not paused; otherwise, the Node accepting the request, it
  issues exactly one un-paused update and clears the flag.
\<close>

theorem C9_pause_resume_guards:
  "(\<not> p_playing p \<longrightarrow> Player_pause env p = (None, p))
   \<and> (p_playing p \<and> p_node p = Some nm \<and> e_rest env nm (PatchPaused True) \<longrightarrow>
        fst (Player_pause env p) = None
        \<and> p_sent (snd (Player_pause env p)) = p_sent p @ [(nm, PatchPaused True)]
        \<and> p_paused (snd (Player_pause env p))
        \<and> p_state (snd (Player_pause env p)) = PS_PAUSED)
   \<and> (\<not> p_paused p \<longrightarrow> Player_resume env p = (None, p))
   \<and> (p_paused p \<and> p_node p = Some nm \<and> e_rest env nm (PatchPaused False) \<longrightarrow>
        fst (Player_resume env p) = None
        \<and> p_sent (snd (Player_resume env p)) = p_sent p @ [(nm, PatchPaused False)]
        \<and> \<not> p_paused (snd (Player_resume env p))
        \<and> p_state (snd (Player_resume env p)) = PS_PLAYING)"
  by (simp add: Player_pause_def Player_resume_def Node_rest_ok Let_def
        startInactivityTimer_fields resetInactivityTimer_fields)

theorem C9_pause_resume_witness:
  "\<not> p_playing (Player_new ''g'' (Some ''A''))
   \<and> Player_pause env0 (Player_new ''g'' (Some ''A'')) = (None, Player_new ''g'' (Some ''A''))
   \<and> p_playing paused_player \<and> p_node paused_player = Some ''A''
   \<and> e_rest env0 ''A'' (PatchPaused True)
   \<and> p_sent (snd (Player_pause env0 paused_player)) = p_sent paused_player @ [(''A'', PatchPaused True)]
   \<and> \<not> p_paused (Player_new ''g'' (Some ''A''))
   \<and> Player_resume env0 (Player_new ''g'' (Some ''A'')) = (None, Player_new ''g'' (Some ''A''))
   \<and> p_paused paused_player \<and> e_rest env0 ''A'' (PatchPaused False)
   \<and> p_sent (snd (Player_resume env0 paused_player)) = p_sent paused_player @ [(''A'', PatchPaused False)]
   \<and> \<not> p_paused (snd (Player_resume env0 paused_player))"
proof -
  have a: "\<not> p_playing (Player_new ''g'' (Some ''A''))" "\<not> p_paused (Player_new ''g'' (Some ''A''))"
    by (simp_all add: Player_new_def)
  have b: "p_playing paused_player" "p_node paused_player = Some ''A''" "p_paused paused_player"
    by (simp_all add: paused_player_def Player_new_def)
  have c: "e_rest env0 ''A'' (PatchPaused True)" "e_rest env0 ''A'' (PatchPaused False)"
    by (simp_all add: env0_def)
  show ?thesis
    using C9_pause_resume_guards[of "Player_new ''g'' (Some ''A'')" env0 "''A''"]
      C9_pause_resume_guards[of paused_player env0 "''A''"] a b c
    by simp
qed

text \<open>
  The sentence of the specification fails: \<open>pause()\<close> on a player that is already paused sends the
  update again and re-arms the paused inactivity timer.
\<close>

theorem C9_counterexample:
  "p_paused paused_player \<and> p_state paused_player = PS_PAUSED \<and> p_sent paused_player = []
   \<and> p_inactivityTimer paused_player = None
   \<and> p_sent (snd (Player_pause env0 paused_player)) = [(''A'', PatchPaused True)]
   \<and> p_inactivityTimer (snd (Player_pause env0 paused_player)) = Some 600000"
  by (simp add: paused_player_def Player_new_def Player_pause_def Node_rest_def env0_def
        Player_startInactivityTimer_def Player_resetInactivityTimer_def Let_def)


section \<open>Player: the end of the queue and autoplay\<close>

lemma next_none_current:
  "fst (Queue_next q) = None \<Longrightarrow> current (snd (Queue_next q)) = None"
  by (auto simp: Queue_next_def addToHistory_def Let_def split: option.splits list.splits if_splits)

lemma getAutoplayTracks_no_current:
  "current q = None \<Longrightarrow> Queue_getAutoplayTracks q = (Inr [], [])"
  by (simp add: Queue_getAutoplayTracks_def split: option.splits)

lemma handleQueueEnd_no_current:
  "current (p_queue p) = None \<Longrightarrow> Player_handleQueueEnd env p = Player_idle p"
  by (simp add: Player_handleQueueEnd.simps getAutoplayTracks_no_current Let_def)

lemma play_exhausted:
  assumes "fst (Queue_next (p_queue p)) = None"
  shows "Player_play env None opts p =
           (Inr None, Player_idle (p\<lparr>p_queue := snd (Queue_next (p_queue p)),
                                      p_events := p_events p @ [QUEUE_END]\<rparr>))"
proof -
  have "current (p_queue (p\<lparr>p_queue := snd (Queue_next (p_queue p)),
                            p_events := p_events p @ [QUEUE_END]\<rparr>)) = None"
    using assms by (simp add: next_none_current)
  then have "Player_handleQueueEnd env (p\<lparr>p_queue := snd (Queue_next (p_queue p)),
                            p_events := p_events p @ [QUEUE_END]\<rparr>)
             = Player_idle (p\<lparr>p_queue := snd (Queue_next (p_queue p)),
                            p_events := p_events p @ [QUEUE_END]\<rparr>)"
    by (rule handleQueueEnd_no_current)
  then show ?thesis
    using assms by (simp add: Player_play.simps Let_def)
qed

lemma play_exhausted_never_calls_provider:
  assumes "fst (Queue_next (p_queue p)) = None"
  shows "p_providerCalls (snd (Player_play env None opts p)) = p_providerCalls p
       \<and> p_state (snd (Player_play env None opts p)) = PS_STOPPED
       \<and> \<not> p_playing (snd (Player_play env None opts p))
       \<and> p_events (snd (Player_play env None opts p)) = p_events p @ [QUEUE_END]"
  by (simp add: play_exhausted[OF assms] Player_idle_def startInactivityTimer_fields)

text \<open>
  C2 at its failing input. A Player with autoplay enabled and a provider set finishes
  its last track: \<open>play()\<close> emits the queue-ended notification, but \<open>Queue.next()\<close> has
  already cleared the current track, so \<open>getAutoplayTracks\<close> returns no tracks without
  invoking the provider, nothing is added to the queue and the Player stops with the
  empty-queue timeout, where the claim has the provider invoked and playback resumed.
\<close>

theorem C2_autoplay_provider_not_invoked:
  "autoplay (p_queue autoplay_player)
   \<and> autoplayProvider (p_queue autoplay_player) \<noteq> None
   \<and> current (p_queue autoplay_player) = Some trackA
   \<and> fst (Queue_next (p_queue autoplay_player)) = None
   \<and> fst (Player_play env0 None no_play_options autoplay_player) = Inr None
   \<and> p_events (snd (Player_play env0 None no_play_options autoplay_player)) = [QUEUE_END]
   \<and> p_providerCalls (snd (Player_play env0 None no_play_options autoplay_player)) = []
   \<and> tracks (p_queue (snd (Player_play env0 None no_play_options autoplay_player))) = []
   \<and> p_sent (snd (Player_play env0 None no_play_options autoplay_player)) = []
   \<and> p_state (snd (Player_play env0 None no_play_options autoplay_player)) = PS_STOPPED
   \<and> p_inactivityTimer (snd (Player_play env0 None no_play_options autoplay_player)) = Some 30000"
proof -
  have ex: "fst (Queue_next (p_queue autoplay_player)) = None"
    by (simp add: autoplay_player_def Player_new_def Queue_new_def Queue_next_def
          addToHistory_def Let_def)
  show ?thesis
    by (simp add: play_exhausted[OF ex] Player_idle_def)
       (simp add: autoplay_player_def Player_new_def Queue_new_def Queue_next_def
          addToHistory_def Let_def Player_startInactivityTimer_def
          Player_resetInactivityTimer_def)
qed


section \<open>Player: migration to another Node\<close>

lemma Node_rest_fields:
  "p_queue (snd (Node_rest env nd call p)) = p_queue p"
  "p_playing (snd (Node_rest env nd call p)) = p_playing p"
  "p_paused (snd (Node_rest env nd call p)) = p_paused p"
  "p_position (snd (Node_rest env nd call p)) = p_position p"
  "p_positionTimestamp (snd (Node_rest env nd call p)) = p_positionTimestamp p"
  "p_connected (snd (Node_rest env nd call p)) = p_connected p"
  "p_filters (snd (Node_rest env nd call p)) = p_filters p"
  "p_volume (snd (Node_rest env nd call p)) = p_volume p"
  "p_connection (snd (Node_rest env nd call p)) = p_connection p"
  "p_node (snd (Node_rest env nd call p)) = p_node p"
  by (simp_all add: Node_rest_def Let_def split: option.splits)

lemma play_current_sends:
  assumes "current (p_queue p) = Some t" and "p_node p = Some nm"
    and "e_rest env nm (PatchPlay \<lparr> pb_encoded = encoded t,
            pb_position = (if truthy_num (po_startTime opts) then po_startTime opts else None),
            pb_endTime = (if truthy_num (po_endTime opts) then po_endTime opts else None),
            pb_filters = p_filters p, pb_volume = p_volume p \<rparr> (po_noReplace opts))"
  shows "p_sent (snd (Player_play_current env opts p))
         = p_sent p @ [(nm, PatchPlay \<lparr> pb_encoded = encoded t,
            pb_position = (if truthy_num (po_startTime opts) then po_startTime opts else None),
            pb_endTime = (if truthy_num (po_endTime opts) then po_endTime opts else None),
            pb_filters = p_filters p, pb_volume = p_volume p \<rparr> (po_noReplace opts))]"
  using assms
  by (simp add: Player_play_current_def Node_rest_def Let_def Player_resetInactivityTimer_def
        Player_preloadNextTrack_def split: option.splits)

lemma sendVoiceUpdate_bound:
  assumes "p_node p = Some nm" and "\<And>call. e_rest env nm call"
  shows "fst (Player_sendVoiceUpdate env data p) = None
       \<and> p_queue (snd (Player_sendVoiceUpdate env data p)) = p_queue p
       \<and> p_playing (snd (Player_sendVoiceUpdate env data p)) = p_playing p
       \<and> p_paused (snd (Player_sendVoiceUpdate env data p)) = p_paused p
       \<and> p_position (snd (Player_sendVoiceUpdate env data p)) = p_position p
       \<and> p_positionTimestamp (snd (Player_sendVoiceUpdate env data p)) = p_positionTimestamp p
       \<and> p_filters (snd (Player_sendVoiceUpdate env data p)) = p_filters p
       \<and> p_volume (snd (Player_sendVoiceUpdate env data p)) = p_volume p
       \<and> p_node (snd (Player_sendVoiceUpdate env data p)) = Some nm"
  using assms by (simp add: Player_sendVoiceUpdate_def Node_rest_def Let_def)

lemma migrateNode_replays_at_estimated_position:
  assumes "p_playing p" and "current (p_queue p) = Some t"
    and "\<And>call. e_rest env newNode call"
  shows "\<exists>before.
           p_sent (snd (Player_migrateNode env newNode p))
           = before @ [(newNode, PatchPlay \<lparr> pb_encoded = encoded t,
                 pb_position = (if Player_estimatedPosition env p = 0 then None
                                else Some (Player_estimatedPosition env p)),
                 pb_endTime = None, pb_filters = p_filters p, pb_volume = p_volume p \<rparr> False)]"
proof -
  define p2 where "p2 = (snd (Node_rest env (p_node p) DeletePlayer p))\<lparr>p_node := Some newNode\<rparr>"
  define r1 where "r1 = (if p_connected p2
               then Player_sendVoiceUpdate env (Connection_getVoicePayload (p_connection p2)) p2
             else (None, p2))"
  define p3 where "p3 = snd r1"
  have p2: "p_queue p2 = p_queue p" "p_playing p2 = p_playing p" "p_paused p2 = p_paused p"
    "p_position p2 = p_position p" "p_positionTimestamp p2 = p_positionTimestamp p"
    "p_filters p2 = p_filters p" "p_volume p2 = p_volume p" "p_node p2 = Some newNode"
    by (simp_all add: p2_def Node_rest_fields)
  have r1: "fst r1 = None \<and> p_queue p3 = p_queue p \<and> p_playing p3 = p_playing p
       \<and> p_paused p3 = p_paused p \<and> p_position p3 = p_position p
       \<and> p_positionTimestamp p3 = p_positionTimestamp p \<and> p_filters p3 = p_filters p
       \<and> p_volume p3 = p_volume p \<and> p_node p3 = Some newNode"
  proof (cases "p_connected p2")
    case True
    then show ?thesis
      using sendVoiceUpdate_bound[OF p2(8) assms(3), of "Connection_getVoicePayload (p_connection p2)"]
      by (simp add: r1_def p3_def p2)
  next
    case False
    then show ?thesis by (simp add: r1_def p3_def p2)
  qed
  have est: "Player_estimatedPosition env p3 = Player_estimatedPosition env p"
    by (simp add: Player_estimatedPosition_def r1)
  define opts where "opts = \<lparr> po_startTime = Some (Player_estimatedPosition env p3),
                 po_endTime = None, po_noReplace = False \<rparr>"
  define p4 where "p4 = p3\<lparr>p_queue := (p_queue p3)\<lparr>current := Some t\<rparr>\<rparr>"
  have unfold: "Player_migrateNode env newNode p =
      (case fst r1 of
            Some e \<Rightarrow> (Some e, snd r1)
          | None \<Rightarrow>
               if current (p_queue p3) \<noteq> None \<and> p_playing p3 then
                    (let r2 = Player_play env (current (p_queue p3))
                                \<lparr> po_startTime = Some (Player_estimatedPosition env p3),
                                  po_endTime = None, po_noReplace = False \<rparr> p3
                     in (case fst r2 of Inl e \<Rightarrow> (Some e, snd r2) | Inr t \<Rightarrow> (None, snd r2)))
                  else (None, p3))"
    by (simp only: Player_migrateNode_def Let_def r1_def p2_def p3_def)
  have mig: "snd (Player_migrateNode env newNode p) = snd (Player_play_current env opts p4)"
    unfolding unfold using r1 assms(1,2)
    by (simp add: Let_def Player_play.simps opts_def p4_def split: sum.splits)
  have "p_sent (snd (Player_play_current env opts p4))
        = p_sent p4 @ [(newNode, PatchPlay \<lparr> pb_encoded = encoded t,
            pb_position = (if truthy_num (po_startTime opts) then po_startTime opts else None),
            pb_endTime = (if truthy_num (po_endTime opts) then po_endTime opts else None),
            pb_filters = p_filters p4, pb_volume = p_volume p4 \<rparr> (po_noReplace opts))]"
    by (rule play_current_sends) (simp_all add: p4_def r1 assms(3))
  then have "p_sent (snd (Player_migrateNode env newNode p))
        = p_sent p4 @ [(newNode, PatchPlay \<lparr> pb_encoded = encoded t,
                 pb_position = (if Player_estimatedPosition env p = 0 then None
                                else Some (Player_estimatedPosition env p)),
                 pb_endTime = None, pb_filters = p_filters p, pb_volume = p_volume p \<rparr> False)]"
    unfolding mig by (simp add: truthy_num_def est opts_def p4_def r1)
  then show ?thesis by blast
qed


text \<open>
  C8 at its failing input. The Player, voice-connected and playing at position 30000
  sampled 1000 ms ago, is migrated from the unreachable Node X to Node Y. The deletion
  on X fails and is ignored, and the play command goes to Y with position 31000; but
  the voice update sent to Y carries the session id only: \<open>migrateNode\<close> hands
  \<open>_sendVoiceUpdate\<close> the object of \<open>getVoicePayload\<close>, which nests token and endpoint
  under \<open>event\<close>, so both read as undefined, whereas the payload of the ready event
  yields all three.
\<close>

theorem C8_migration_voice_update_lacks_credentials:
  "p_connected migrating_player \<and> p_playing migrating_player
   \<and> c_token (p_connection migrating_player) = Some ''t''
   \<and> c_endpoint (p_connection migrating_player) = Some ''us-east1.example''
   \<and> Player_estimatedPosition env0 migrating_player = 31000
   \<and> fst (Player_migrateNode env0 ''Y'' migrating_player) = None
   \<and> p_sent (snd (Player_migrateNode env0 ''Y'' migrating_player))
       = [(''X'', DeletePlayer),
          (''Y'', PatchVoice \<lparr> vb_sessionId = JString ''s'', vb_token = JUndefined,
                                vb_endpoint = JUndefined \<rparr>),
          (''Y'', PatchPlay \<lparr> pb_encoded = Some ''QQ=='', pb_position = Some 31000,
                               pb_endTime = None, pb_filters = None, pb_volume = 100 \<rparr> False)]
   \<and> p_sent (snd (Player_sendVoiceUpdate env0
                      (Connection_readyPayload (p_connection migrating_player))
                      (migrating_player\<lparr>p_node := Some ''Y''\<rparr>)))
       = [(''Y'', PatchVoice \<lparr> vb_sessionId = JString ''s'', vb_token = JString ''t'',
                                vb_endpoint = JString ''us-east1.example'' \<rparr>)]"
  by (simp add: Player_migrateNode_def Player_play.simps migrating_player_def Player_new_def
        Queue_new_def Connection_new_def Let_def Node_rest_def env0_def
        Player_sendVoiceUpdate_def Connection_getVoicePayload_def Connection_readyPayload_def
        js_of_def Player_play_current_def truthy_num_def Player_estimatedPosition_def
        trackA_def Player_resetInactivityTimer_def Player_preloadNextTrack_def Queue_at_def)


text \<open>
  At this input the Player is playing and not paused, so the estimate is the sampled
  position plus the time elapsed since the sample.
\<close>

theorem C8_migration_witness:
  "p_playing migrating_player \<and> \<not> p_paused migrating_player
   \<and> p_position migrating_player + (e_now env0 - p_positionTimestamp migrating_player) = 31000
   \<and> Player_estimatedPosition env0 migrating_player = 31000
   \<and> fst (Player_migrateNode env0 ''Y'' migrating_player) = None
   \<and> map fst (p_sent (snd (Player_migrateNode env0 ''Y'' migrating_player)))
       = [''X'', ''Y'', ''Y'']"
proof -
  have "p_playing migrating_player \<and> \<not> p_paused migrating_player
        \<and> p_position migrating_player + (e_now env0 - p_positionTimestamp migrating_player) = 31000"
    by (simp add: migrating_player_def Player_new_def env0_def)
  then show ?thesis
    using C8_migration_voice_update_lacks_credentials by simp
qed

end
